theory Spec2Isabelle
  imports Main
begin

section \<open>Collection names\<close>

text \<open>
  The roster store is a MongoDB database with one collection per stream, semester and
  entity type. Two route files derive the collection name: \<open>routes/teacherRoutes.js\<close>
  (constant \<open>STREAM_MAPPINGS\<close>, function \<open>getCollectionName\<close>) and the reports router
  (its own \<open>getCollectionName\<close> with a local \<open>streamMappings\<close> table).

  A JavaScript \<open>Error\<close> is a value of the datatype \<open>error\<close>. The first four constructors
  are the errors the route's own helpers throw, with the data interpolated into their
  messages. The other three are raised by Mongoose and the database driver:
  \<open>ValidationError\<close> (the error named so, with the messages of its \<open>errors\<close>), \<open>CastError\<close>
  (the error named so, with its message) and \<open>StoreError\<close> (any other error, with its
  message).
\<close>

datatype error =
    MissingParameters string nat string
  | InvalidStream string
  | InvalidSemester nat
  | ModelParametersRequired
  | ValidationError "string list"
  | CastError string
  | StoreError string

text \<open>Template interpolation of a non-negative integer: its decimal digits.\<close>

definition digitChar :: "nat \<Rightarrow> char" where
  "digitChar d = ''0123456789'' ! (d mod 10)"

fun showNat :: "nat \<Rightarrow> string" where
  "showNat n = (if n < 10 then [digitChar n] else showNat (n div 10) @ [digitChar (n mod 10)])"

declare showNat.simps [simp del]

definition STREAM_MAPPINGS :: "(string \<times> string) list" where
  "STREAM_MAPPINGS =
     [(''BCA'', ''bca''),
      (''BBA'', ''bba''),
      (''BCom'', ''bcom''),
      (''BCom Section B'', ''bcomsectionb''),
      (''BCom-BDA'', ''bcom-bda''),
      (''BCom A and F'', ''bcom_a_and_f'')]"

text \<open>
  \<open>getCollectionName(stream, semester, type)\<close> of \<open>routes/teacherRoutes.js\<close>. The semester
  is a number here (the promotion route passes numbers); \<open>!semester\<close> holds for \<open>0\<close>.
\<close>

definition getCollectionName :: "string \<Rightarrow> nat \<Rightarrow> string \<Rightarrow> error + string" where
  "getCollectionName stream semester type =
     (if stream = [] \<or> semester = 0 \<or> type = [] then Inl (MissingParameters stream semester type)
      else case map_of STREAM_MAPPINGS stream of
             None \<Rightarrow> Inl (InvalidStream stream)
           | Some streamCode \<Rightarrow>
               if semester < 1 \<or> semester > 8 then Inl (InvalidSemester semester)
               else Inr (streamCode @ ''_sem'' @ showNat semester @ ''_'' @ type))"

text \<open>
  The reports router's \<open>getCollectionName\<close>: its own table, a fallback for a stream that
  is not in the table (lower-cased, with whitespace, \<open>&\<close> and \<open>-\<close> replaced by \<open>_\<close>), and no
  validation. Characters are bytes; \<open>toLowerCase\<close>, \<open>toUpperCase\<close> and \<open>trim\<close> are modelled
  on ASCII.
\<close>

definition reports_streamMappings :: "(string \<times> string) list" where
  "reports_streamMappings =
     [(''BCA'', ''bca''),
      (''BBA'', ''bba''),
      (''BCom'', ''bcom''),
      (''BCom Section B'', ''bcomsectionb''),
      (''BCom-BDA'', ''bcom_bda''),
      (''BCom A and F'', ''bcom_a_and_f'')]"

text \<open>The characters of the class \<open>\s\<close> among the bytes: space, tab, line feed, vertical tab,
  form feed and carriage return.\<close>

definition isWhitespace :: "char \<Rightarrow> bool" where
  "isWhitespace c = (c \<in> set [CHR '' '', CHR 0x09, CHR 0x0A, CHR 0x0B, CHR 0x0C, CHR 0x0D])"

definition toLowerChar :: "char \<Rightarrow> char" where
  "toLowerChar c =
     (case map_of (zip ''ABCDEFGHIJKLMNOPQRSTUVWXYZ'' ''abcdefghijklmnopqrstuvwxyz'') c of
        Some l \<Rightarrow> l
      | None \<Rightarrow> c)"

definition toUpperChar :: "char \<Rightarrow> char" where
  "toUpperChar c =
     (case map_of (zip ''abcdefghijklmnopqrstuvwxyz'' ''ABCDEFGHIJKLMNOPQRSTUVWXYZ'') c of
        Some u \<Rightarrow> u
      | None \<Rightarrow> c)"

definition toUpperString :: "string \<Rightarrow> string" where
  "toUpperString v = map toUpperChar v"

definition trimString :: "string \<Rightarrow> string" where
  "trimString v = rev (dropWhile isWhitespace (rev (dropWhile isWhitespace v)))"

definition reports_fallbackCode :: "string \<Rightarrow> string" where
  "reports_fallbackCode stream =
     map (\<lambda>c. if isWhitespace c \<or> c = CHR ''&'' \<or> c = CHR ''-'' then CHR ''_'' else c)
         (map toLowerChar stream)"

definition reports_getCollectionName :: "string \<Rightarrow> nat \<Rightarrow> string \<Rightarrow> string" where
  "reports_getCollectionName stream semester type =
     (let streamCode = (case map_of reports_streamMappings stream of
                          Some code \<Rightarrow> code
                        | None \<Rightarrow> reports_fallbackCode stream)
      in streamCode @ ''_sem'' @ showNat semester @ ''_'' @ type)"

text \<open>The stream list of the promotion route.\<close>

definition validStreams :: "string list" where
  "validStreams = [''BCA'', ''BBA'', ''BCom'', ''BCom Section B'', ''BCom-BDA'', ''BCom A and F'']"

section \<open>Student records\<close>

text \<open>
  A document of a student collection, with the fields of \<open>studentSchema\<close> that the
  promotion route reads or writes. A field that a stored document may lack or hold as
  \<open>null\<close> has the three states \<open>Absent\<close>, \<open>Null\<close> and \<open>Value\<close>. Dates are milliseconds
  since the epoch. An entry of the migration history has its five fields, as the route
  writes them. Identifiers (\<open>_id\<close>), the version key and the \<open>createdAt\<close>/\<open>updatedAt\<close>
  stamps that Mongoose adds are left out.
\<close>

datatype 'a field_value = Absent | Null | Value 'a

record migration_entry =
  fromSemester :: nat
  toSemester :: nat
  migratedDate :: nat
  entryBatch :: string
  generation :: nat

record student =
  studentID :: string
  name :: string
  stream :: string
  semester :: nat
  parentPhone :: string
  languageSubject :: "string field_value"
  languageGroup :: "string field_value"
  isActive :: "bool field_value"
  migrationGeneration :: "nat field_value"
  originalSemester :: "nat field_value"
  addedToSemesterDate :: "nat field_value"
  lastMigrationDate :: "nat field_value"
  migrationBatch :: "string field_value"
  migrationHistory :: "migration_entry list field_value"
  academicYear :: "string field_value"

text \<open>
  \<open>getActiveStudentQuery()\<close>, evaluated by the database on the stored document:
  \<open>isActive\<close> is \<open>true\<close>, or the field does not exist, or it is \<open>null\<close>.
\<close>

definition getActiveStudentQuery :: "student \<Rightarrow> bool" where
  "getActiveStudentQuery s =
     (isActive s = Value True \<or> isActive s = Absent \<or> isActive s = Null)"

text \<open>The clock readings of one run.\<close>

record clock =
  clockDate :: nat
  clockNow :: nat
  clockYear :: string
  clockHydrate :: nat
  clockError :: nat

text \<open>
  \<open>clockDate\<close> is \<open>new Date()\<close> at the start of the handler, \<open>clockNow\<close> the \<open>Date.now()\<close> of
  the batch id, \<open>clockYear\<close> the calendar year as \<open>getFullYear().toString()\<close> gives it,
  \<open>clockHydrate\<close> the \<open>Date.now()\<close> read when
  a document is loaded, \<open>clockError\<close> the time stamp of an error answer.

  A \<open>find\<close> without \<open>lean()\<close> returns Mongoose documents: a field the stored document
  lacks gets the default of \<open>studentSchema\<close>. The constant defaults are \<open>null\<close> for
  \<open>languageSubject\<close>, \<open>lastMigrationDate\<close> and \<open>migrationBatch\<close>, \<open>true\<close> for \<open>isActive\<close>,
  \<open>0\<close> for \<open>migrationGeneration\<close> and the empty array for \<open>migrationHistory\<close>. The
  computed defaults see the loaded document: \<open>originalSemester\<close> is \<open>this.semester\<close>,
  \<open>languageGroup\<close> is built from stream, semester and language when the document has a
  language (passed through the field's \<open>uppercase\<close> setter) and \<open>null\<close> otherwise,
  \<open>addedToSemesterDate\<close> is \<open>Date.now\<close>, \<open>academicYear\<close> the current year. A field stored
  as \<open>null\<close> stays \<open>null\<close>.
\<close>

definition orDefault :: "'a field_value \<Rightarrow> 'a field_value \<Rightarrow> 'a field_value" where
  "orDefault x d = (case x of Absent \<Rightarrow> d | Null \<Rightarrow> Null | Value v \<Rightarrow> Value v)"

definition languageGroupDefault :: "student \<Rightarrow> string field_value \<Rightarrow> string field_value" where
  "languageGroupDefault s subject =
     (case subject of
        Value l \<Rightarrow>
          if l \<noteq> [] then Value (toUpperString (stream s @ ''_SEM'' @ showNat (semester s) @ ''_'' @ l))
          else Null
      | _ \<Rightarrow> Null)"

definition hydrate :: "clock \<Rightarrow> student \<Rightarrow> student" where
  "hydrate clk s =
     s\<lparr> languageSubject := orDefault (languageSubject s) Null,
        languageGroup := orDefault (languageGroup s)
                           (languageGroupDefault s (orDefault (languageSubject s) Null)),
        isActive := orDefault (isActive s) (Value True),
        migrationGeneration := orDefault (migrationGeneration s) (Value 0),
        originalSemester := orDefault (originalSemester s) (Value (semester s)),
        addedToSemesterDate := orDefault (addedToSemesterDate s) (Value (clockHydrate clk)),
        lastMigrationDate := orDefault (lastMigrationDate s) Null,
        migrationBatch := orDefault (migrationBatch s) Null,
        migrationHistory := orDefault (migrationHistory s) (Value []),
        academicYear := orDefault (academicYear s) (Value (clockYear clk)) \<rparr>"

text \<open>
  JavaScript's \<open>x || d\<close> on a number field: the default replaces an absent or \<open>null\<close>
  value and also the falsy number \<open>0\<close>. On an array field only an absent or \<open>null\<close>
  value is falsy.
\<close>

definition jsOrNum :: "nat field_value \<Rightarrow> nat \<Rightarrow> nat" where
  "jsOrNum x d = (case x of Value n \<Rightarrow> if n = 0 then d else n | _ \<Rightarrow> d)"

definition jsOrList :: "'a list field_value \<Rightarrow> 'a list" where
  "jsOrList x = (case x of Value xs \<Rightarrow> xs | _ \<Rightarrow> [])"

text \<open>
  The object built for one loaded student by the \<open>studentsToPromote.map\<close> callback of the
  promotion route. \<open>promotionDate\<close> and \<open>promotionBatch\<close> are fixed once per run;
  \<open>year\<close> is \<open>new Date().getFullYear().toString()\<close>, read when the object is built.
\<close>

definition promoteStudent ::
  "nat \<Rightarrow> string \<Rightarrow> string \<Rightarrow> nat \<Rightarrow> nat \<Rightarrow> student \<Rightarrow> student" where
  "promoteStudent promotionDate promotionBatch year fromSem toSem s =
     \<lparr> studentID = studentID s,
       name = name s,
       stream = stream s,
       semester = toSem,
       parentPhone = parentPhone s,
       languageSubject = languageSubject s,
       languageGroup = languageGroup s,
       isActive = Value True,
       migrationGeneration = Value (jsOrNum (migrationGeneration s) 0 + 1),
       originalSemester = Value (jsOrNum (originalSemester s) fromSem),
       addedToSemesterDate = Value promotionDate,
       lastMigrationDate = Value promotionDate,
       migrationBatch = Value promotionBatch,
       migrationHistory =
         Value (jsOrList (migrationHistory s) @
               [\<lparr> fromSemester = fromSem,
                  toSemester = toSem,
                  migratedDate = promotionDate,
                  entryBatch = promotionBatch,
                  generation = jsOrNum (migrationGeneration s) 0 + 1 \<rparr>]),
       academicYear = Value year \<rparr>"

text \<open>
  \<open>insertMany\<close> makes a Mongoose document of each object before it is stored, which runs
  the setters of \<open>studentSchema\<close>: \<open>studentID\<close> and \<open>name\<close> are upper-cased and trimmed,
  \<open>stream\<close>, \<open>languageSubject\<close> and \<open>languageGroup\<close> are upper-cased (\<open>null\<close> stays \<open>null\<close>),
  and \<open>parentPhone\<close> passes through the schema's \<open>set\<close> function, which removes
  whitespace, hyphens, parentheses and plus signs and puts \<open>91\<close> before a number of ten
  digits that does not start with \<open>91\<close>. The other fields are stored as given. It is
  applied to the objects the route builds, which leave no field undefined.
\<close>

definition phoneSetter :: "string \<Rightarrow> string" where
  "phoneSetter v =
     (let cleaned = filter (\<lambda>c. \<not> (isWhitespace c \<or> c \<in> set ''-()+'')) v
      in if length cleaned = 10 \<and> take 2 cleaned \<noteq> ''91'' then ''91'' @ cleaned else cleaned)"

definition upperField :: "string field_value \<Rightarrow> string field_value" where
  "upperField x = (case x of Value v \<Rightarrow> Value (toUpperString v) | Null \<Rightarrow> Null | Absent \<Rightarrow> Absent)"

definition castOnInsert :: "student \<Rightarrow> student" where
  "castOnInsert d =
     d\<lparr> studentID := trimString (toUpperString (studentID d)),
        name := trimString (toUpperString (name d)),
        stream := toUpperString (stream d),
        parentPhone := phoneSetter (parentPhone d),
        languageSubject := upperField (languageSubject d),
        languageGroup := upperField (languageGroup d) \<rparr>"

section \<open>The roster store\<close>

text \<open>
  The database maps a collection name to the documents of that collection, in insertion
  order; a collection that was never written is empty (collections are created on first
  use). \<open>getStudentModel\<close> returns the handle of a student collection, which is
  identified with the collection's name; the model cache only memoises that handle.

  Every call to the database can be rejected (connection loss, a duplicate key on the
  unique \<open>studentID\<close> index, a validator of the schema, ...). Whether a call is rejected
  is not computed from the documents: a fault plan says which calls are rejected and with
  which error, so that every behaviour of the database is its behaviour under some plan.
  A rejected call changes nothing and leaves the session usable for the calls that
  follow. Within one promotion run each call is made at most once per collection, so a
  plan indexed by call and collection describes every pattern of rejections.

  A call made with the session (\<open>.session(session)\<close>, \<open>{ session }\<close>) reads and writes the
  transaction's view of the database; a call made without it reads and writes the
  committed database directly, outside the transaction.
\<close>

type_synonym database = "string \<Rightarrow> student list"

datatype storeOp =
    StartSession
  | CountDocuments string
  | FindAll string
  | FindActive string
  | InsertMany string
  | DeleteMany string
  | CommitTransaction

type_synonym fault_plan = "storeOp \<Rightarrow> error option"

datatype session_use = WithSession | WithoutSession

definition getStudentModel :: "string \<Rightarrow> nat \<Rightarrow> error + string" where
  "getStudentModel strm sem =
     (if strm = [] \<or> sem = 0 then Inl ModelParametersRequired
      else getCollectionName strm sem ''students'')"

section \<open>The promotion route\<close>

datatype promotion_detail =
    Graduation nat nat "(string \<times> string) list"
  | Promotion nat nat nat "(string \<times> string) list"

datatype log_entry =
    GraduationError error
  | PromotionError nat nat error
  | UnhandledApplicationError error

text \<open>
  The state of one run: the committed database, the transaction's view of it (\<open>store\<close>),
  the counters and the detail list of the handler, and the lines written with
  \<open>console.error\<close> (by the route: a failed graduation step, a failed pair; by the
  application's error middleware: the error it answers).
\<close>

record run_state =
  committed :: database
  store :: database
  totalPromoted :: nat
  totalGraduated :: nat
  promotionDetails :: "promotion_detail list"
  errorLog :: "log_entry list"

definition readDocs :: "session_use \<Rightarrow> run_state \<Rightarrow> string \<Rightarrow> student list" where
  "readDocs sess st coll =
     (case sess of WithSession \<Rightarrow> store st coll | WithoutSession \<Rightarrow> committed st coll)"

definition writeDocs :: "session_use \<Rightarrow> string \<Rightarrow> student list \<Rightarrow> run_state \<Rightarrow> run_state" where
  "writeDocs sess coll docs st =
     (case sess of
        WithSession \<Rightarrow> st\<lparr>store := (store st)(coll := docs)\<rparr>
      | WithoutSession \<Rightarrow> st\<lparr>committed := (committed st)(coll := docs)\<rparr>)"

text \<open>\<open>stream.replace(/\s+/g, '_')\<close>: every run of whitespace becomes one underscore.\<close>

function replaceWhitespace :: "string \<Rightarrow> string" where
  "replaceWhitespace [] = []"
| "replaceWhitespace (c # cs) =
     (if isWhitespace c then CHR ''_'' # replaceWhitespace (dropWhile isWhitespace cs)
      else c # replaceWhitespace cs)"
  by pat_completeness auto
termination
  by (relation "measure length") (auto simp: length_dropWhile_le less_Suc_eq_le)

definition promotionBatchId :: "string \<Rightarrow> nat \<Rightarrow> string" where
  "promotionBatchId strm now = ''simple_promotion_'' @ replaceWhitespace strm @ ''_'' @ showNat now"

definition semesterRange :: "string \<Rightarrow> nat list" where
  "semesterRange strm = (if strm = ''BCom Section B'' then [5, 6] else [1, 2, 3, 4, 5, 6])"

text \<open>
  The loop \<open>for (let fromSem = 5; fromSem >= 1; fromSem--)\<close> pushes the pairs
  \<open>(5,6), (4,5), (3,4), (2,3), (1,2)\<close>; \<open>descendingPairs n\<close> is that loop started at \<open>n\<close>.
\<close>

fun descendingPairs :: "nat \<Rightarrow> (nat \<times> nat) list" where
  "descendingPairs 0 = []"
| "descendingPairs (Suc n) = (Suc n, Suc n + 1) # descendingPairs n"

definition promotionPairs :: "string \<Rightarrow> (nat \<times> nat) list" where
  "promotionPairs strm = (if strm = ''BCom Section B'' then [(5, 6)] else descendingPairs 5)"

definition studentRef :: "student \<Rightarrow> string \<times> string" where
  "studentRef s = (studentID s, name s)"

definition logGraduationError :: "error \<Rightarrow> run_state \<Rightarrow> run_state" where
  "logGraduationError e st = st\<lparr>errorLog := errorLog st @ [GraduationError e]\<rparr>"

text \<open>
  Step 1, the body of \<open>if (semesterRange.includes(6))\<close>: the \<open>try\<close> block, whose
  \<open>catch\<close> logs the error and lets the run continue. Every call carries the session.
\<close>

definition graduationStep :: "fault_plan \<Rightarrow> clock \<Rightarrow> string \<Rightarrow> run_state \<Rightarrow> run_state" where
  "graduationStep faults clk strm st =
     (case getStudentModel strm 6 of
        Inl e \<Rightarrow> logGraduationError e st
      | Inr coll \<Rightarrow>
          (case faults (CountDocuments coll) of
             Some e \<Rightarrow> logGraduationError e st
           | None \<Rightarrow>
               let semester6Count = length (readDocs WithSession st coll) in
               if semester6Count > 0 then
                 (case faults (FindAll coll) of
                    Some e \<Rightarrow> logGraduationError e st
                  | None \<Rightarrow>
                      let graduatingStudents = map (hydrate clk) (readDocs WithSession st coll) in
                      (case faults (DeleteMany coll) of
                         Some e \<Rightarrow> logGraduationError e st
                       | None \<Rightarrow>
                           (writeDocs WithSession coll [] st)
                             \<lparr>totalGraduated := semester6Count,
                              promotionDetails := promotionDetails st @
                                [Graduation 6 semester6Count (map studentRef graduatingStudents)]\<rparr>))
               else st))"

definition failPair :: "nat \<Rightarrow> nat \<Rightarrow> error \<Rightarrow> run_state \<Rightarrow> error option \<times> run_state" where
  "failPair fromSem toSem e st =
     (Some e, st\<lparr>errorLog := errorLog st @ [PromotionError fromSem toSem e]\<rparr>)"

text \<open>
  One iteration of the loop over \<open>promotionPairs\<close>: the \<open>try\<close> block, whose \<open>catch\<close> logs
  the pair and throws the error again. \<open>find\<close> selects on the stored documents and returns
  them loaded; \<open>insertMany\<close> stores the built objects as Mongoose casts them. Every call
  carries the session. The result is the error thrown, if any, and the state reached.
\<close>

definition promotePair ::
  "fault_plan \<Rightarrow> clock \<Rightarrow> string \<Rightarrow> nat \<times> nat \<Rightarrow> run_state \<Rightarrow> error option \<times> run_state" where
  "promotePair faults clk strm pair st =
     (let fromSem = fst pair; toSem = snd pair in
      case getStudentModel strm fromSem of
        Inl e \<Rightarrow> failPair fromSem toSem e st
      | Inr source \<Rightarrow>
      (case getStudentModel strm toSem of
        Inl e \<Rightarrow> failPair fromSem toSem e st
      | Inr target \<Rightarrow>
      (case faults (FindActive source) of
        Some e \<Rightarrow> failPair fromSem toSem e st
      | None \<Rightarrow>
          let studentsToPromote =
                map (hydrate clk) (filter getActiveStudentQuery (readDocs WithSession st source)) in
          if length studentsToPromote > 0 then
            let promotedStudents =
                  map (promoteStudent (clockDate clk) (promotionBatchId strm (clockNow clk))
                         (clockYear clk) fromSem toSem) studentsToPromote
            in
            (case faults (InsertMany target) of
               Some e \<Rightarrow> failPair fromSem toSem e st
             | None \<Rightarrow>
                 let inserted = writeDocs WithSession target
                                  (readDocs WithSession st target @ map castOnInsert promotedStudents) st
                 in
                 (case faults (DeleteMany source) of
                    Some e \<Rightarrow> failPair fromSem toSem e inserted
                  | None \<Rightarrow>
                      (None,
                       (writeDocs WithSession source [] inserted)
                         \<lparr>totalPromoted := totalPromoted inserted + length studentsToPromote,
                          promotionDetails := promotionDetails inserted @
                            [Promotion fromSem toSem (length studentsToPromote)
                               (map studentRef studentsToPromote)]\<rparr>)))
          else (None, st))))"

text \<open>The loop \<open>for (const {from, to} of promotionPairs)\<close>: it stops at the first error.\<close>

fun runPairs ::
  "fault_plan \<Rightarrow> clock \<Rightarrow> string \<Rightarrow> (nat \<times> nat) list \<Rightarrow> run_state \<Rightarrow> error option \<times> run_state" where
  "runPairs faults clk strm [] st = (None, st)"
| "runPairs faults clk strm (pair # pairs) st =
     (case promotePair faults clk strm pair st of
        (Some e, st') \<Rightarrow> (Some e, st')
      | (None, st') \<Rightarrow> runPairs faults clk strm pairs st')"

text \<open>The callback passed to \<open>session.withTransaction\<close>.\<close>

definition transactionBody ::
  "fault_plan \<Rightarrow> clock \<Rightarrow> string \<Rightarrow> run_state \<Rightarrow> error option \<times> run_state" where
  "transactionBody faults clk strm st =
     (let graduated = (if 6 \<in> set (semesterRange strm) then graduationStep faults clk strm st else st)
      in runPairs faults clk strm (promotionPairs strm) graduated)"

text \<open>
  \<open>session.withTransaction(callback)\<close>, by the driver's contract: the transaction's view
  starts as the committed database; when the callback throws, or the commit is rejected,
  the transaction is aborted, its view is discarded, and the error is thrown on;
  otherwise the view becomes the committed database. What the callback did outside the
  session, to the handler's variables and on the console is not undone. (The driver's
  retry of a callback that failed with a transient error is not modelled.)
\<close>

definition withTransaction ::
  "fault_plan \<Rightarrow> (run_state \<Rightarrow> error option \<times> run_state) \<Rightarrow> run_state \<Rightarrow> error option \<times> run_state" where
  "withTransaction faults callback st =
     (case callback (st\<lparr>store := committed st\<rparr>) of
        (Some e, st') \<Rightarrow> (Some e, st'\<lparr>store := committed st'\<rparr>)
      | (None, st') \<Rightarrow>
          (case faults CommitTransaction of
             Some e \<Rightarrow> (Some e, st'\<lparr>store := committed st'\<rparr>)
           | None \<Rightarrow> (None, st'\<lparr>committed := store st'\<rparr>)))"

text \<open>The message of an error, as its \<open>throw\<close> builds it.\<close>

fun joinWith :: "string \<Rightarrow> string list \<Rightarrow> string" where
  "joinWith sep [] = []"
| "joinWith sep [x] = x"
| "joinWith sep (x # y # ys) = x @ sep @ joinWith sep (y # ys)"

fun errorMessage :: "error \<Rightarrow> string" where
  "errorMessage (MissingParameters strm sem type) =
     ''Missing required parameters: stream=\"'' @ strm @ ''\", semester=\"'' @ showNat sem @
     ''\", type=\"'' @ type @ ''\"''"
| "errorMessage (InvalidStream strm) =
     ''Invalid stream: \"'' @ strm @ ''\". Valid streams are: '' @
     joinWith '', '' (map fst STREAM_MAPPINGS)"
| "errorMessage (InvalidSemester sem) =
     ''Invalid semester: \"'' @ showNat sem @ ''\". Must be between 1-8''"
| "errorMessage ModelParametersRequired = ''Stream and semester are required for student model''"
| "errorMessage (ValidationError messages) = joinWith '', '' messages"
| "errorMessage (CastError message) = message"
| "errorMessage (StoreError message) = message"

text \<open>
  What the caller receives: the 400 answer of the route for an unknown stream; from the
  application's error middleware the 400 answer \<open>Validation Error\<close> with the messages of
  a \<open>ValidationError\<close>, the 400 answer \<open>Invalid ID format\<close> with the message of a
  \<open>CastError\<close>, and for any other error the status (500, none of these errors has a
  \<open>statusCode\<close>), the error's message (\<open>Internal Server Error\<close> for an empty one) and a
  time stamp; or the report with \<open>totalPromoted\<close>, \<open>totalGraduated\<close>, \<open>promotionDetails\<close>,
  \<open>promotionBatch\<close> and \<open>promotionDate\<close>.
\<close>

datatype response =
    InvalidStreamResponse
  | ValidationErrorResponse "string list"
  | CastErrorResponse string
  | ErrorResponse nat string nat
  | SuccessResponse nat nat "promotion_detail list" string nat

text \<open>
  The error middleware of the application (\<open>app.use((err, req, res, next) => ...)\<close>): it
  writes the error to the console and answers by the error's name.
\<close>

definition errorAnswer :: "clock \<Rightarrow> error \<Rightarrow> response" where
  "errorAnswer clk err =
     (case err of
        ValidationError messages \<Rightarrow> ValidationErrorResponse messages
      | CastError message \<Rightarrow> CastErrorResponse message
      | _ \<Rightarrow> ErrorResponse 500
               (if errorMessage err = [] then ''Internal Server Error'' else errorMessage err)
               (clockError clk))"

definition errorMiddleware ::
  "clock \<Rightarrow> error \<Rightarrow> log_entry list \<Rightarrow> response \<times> log_entry list" where
  "errorMiddleware clk err logged = (errorAnswer clk err, logged @ [UnhandledApplicationError err])"

text \<open>
  The handler's variables before the transaction starts: \<open>totalPromoted = 0\<close>,
  \<open>totalGraduated = 0\<close>, \<open>promotionDetails = []\<close>, nothing logged yet.
\<close>

definition initialState :: "database \<Rightarrow> run_state" where
  "initialState database =
     \<lparr>committed = database, store = database, totalPromoted = 0, totalGraduated = 0,
      promotionDetails = [], errorLog = []\<rparr>"

text \<open>
  The handler of \<open>POST /simple-promotion/:stream\<close>, wrapped in \<open>asyncHandler\<close>, which hands
  a thrown error to the error middleware. The result is the response, the committed
  database after the call and the console's error lines. (\<open>session.endSession()\<close> in the
  \<open>finally\<close> block is not modelled.)
\<close>

definition simplePromotion ::
  "fault_plan \<Rightarrow> clock \<Rightarrow> string \<Rightarrow> database \<Rightarrow> response \<times> database \<times> log_entry list" where
  "simplePromotion faults clk strm database =
     (if strm = [] \<or> strm \<notin> set validStreams then (InvalidStreamResponse, database, [])
      else
        case faults StartSession of
          Some e \<Rightarrow>
            (fst (errorMiddleware clk e []), database, snd (errorMiddleware clk e []))
        | None \<Rightarrow>
            (case withTransaction faults (transactionBody faults clk strm) (initialState database) of
               (Some e, st) \<Rightarrow>
                 (fst (errorMiddleware clk e (errorLog st)), committed st,
                  snd (errorMiddleware clk e (errorLog st)))
             | (None, st) \<Rightarrow>
                 (SuccessResponse (totalPromoted st) (totalGraduated st) (promotionDetails st)
                    (promotionBatchId strm (clockNow clk)) (clockDate clk),
                  committed st, errorLog st)))"

section \<open>Notions used to state the properties\<close>

text \<open>The student bucket of a stream and semester: the documents of its collection.\<close>

definition bucket :: "database \<Rightarrow> string \<Rightarrow> nat \<Rightarrow> student list" where
  "bucket database strm sem =
     (case getStudentModel strm sem of Inl e \<Rightarrow> [] | Inr coll \<Rightarrow> database coll)"

text \<open>
  What a promotion pair leaves in its source bucket: nothing when the bucket held an
  active student, the bucket as it was otherwise.
\<close>

definition remainder :: "student list \<Rightarrow> student list" where
  "remainder b = (if filter getActiveStudentQuery b = [] then b else [])"

text \<open>
  The record a promotion pair stores for a stored student: the student is loaded, the
  route builds its object, and the insert casts it. And the records a pair stores for a
  source bucket.
\<close>

definition promotedRecord :: "clock \<Rightarrow> string \<Rightarrow> nat \<Rightarrow> nat \<Rightarrow> student \<Rightarrow> student" where
  "promotedRecord clk strm fromSem toSem s =
     castOnInsert
       (promoteStudent (clockDate clk) (promotionBatchId strm (clockNow clk)) (clockYear clk)
          fromSem toSem (hydrate clk s))"

definition promotedFrom :: "clock \<Rightarrow> string \<Rightarrow> nat \<Rightarrow> nat \<Rightarrow> student list \<Rightarrow> student list" where
  "promotedFrom clk strm fromSem toSem b =
     map (promotedRecord clk strm fromSem toSem) (filter getActiveStudentQuery b)"

text \<open>The records of a source bucket that a pair deletes without copying them.\<close>

definition droppedBy :: "student list \<Rightarrow> nat" where
  "droppedBy b =
     (if filter getActiveStudentQuery b = [] then 0
      else length (filter (\<lambda>s. \<not> getActiveStudentQuery s) b))"

text \<open>The number of student records of a stream, over the semesters 1 to 8.\<close>

definition totalRecords :: "database \<Rightarrow> string \<Rightarrow> nat" where
  "totalRecords database strm = sum_list (map (\<lambda>sem. length (bucket database strm sem)) [1..<9])"

definition totalActive :: "database \<Rightarrow> string \<Rightarrow> nat" where
  "totalActive database strm =
     sum_list (map (\<lambda>sem. length (filter getActiveStudentQuery (bucket database strm sem))) [1..<9])"

text \<open>The plan under which the database rejects no call.\<close>

definition noFaults :: fault_plan where
  "noFaults op = None"

text \<open>
  The first error the graduation step meets on the terminal bucket, if any:
  \<open>countDocuments\<close> is always called, \<open>find\<close> and \<open>deleteMany\<close> only when the count is
  positive.
\<close>

definition graduationFault :: "fault_plan \<Rightarrow> string \<Rightarrow> student list \<Rightarrow> error option" where
  "graduationFault faults coll docs =
     (case faults (CountDocuments coll) of
        Some e \<Rightarrow> Some e
      | None \<Rightarrow>
          if docs = [] then None
          else (case faults (FindAll coll) of
                  Some e \<Rightarrow> Some e
                | None \<Rightarrow> faults (DeleteMany coll)))"

text \<open>
  The error a promotion pair throws, if any, by the source bucket it reads: \<open>find\<close> is
  always called, \<open>insertMany\<close> and \<open>deleteMany\<close> only when an active student was found.
\<close>

definition pairFault :: "fault_plan \<Rightarrow> string \<Rightarrow> string \<Rightarrow> student list \<Rightarrow> error option" where
  "pairFault faults source target docs =
     (case faults (FindActive source) of
        Some e \<Rightarrow> Some e
      | None \<Rightarrow>
          if filter getActiveStudentQuery docs = [] then None
          else (case faults (InsertMany target) of
                  Some e \<Rightarrow> Some e
                | None \<Rightarrow> faults (DeleteMany source)))"

text \<open>The three parts of the handler's result.\<close>

definition promotionResponse :: "fault_plan \<Rightarrow> clock \<Rightarrow> string \<Rightarrow> database \<Rightarrow> response" where
  "promotionResponse faults clk strm database = fst (simplePromotion faults clk strm database)"

definition databaseAfter :: "fault_plan \<Rightarrow> clock \<Rightarrow> string \<Rightarrow> database \<Rightarrow> database" where
  "databaseAfter faults clk strm database = fst (snd (simplePromotion faults clk strm database))"

definition consoleErrors :: "fault_plan \<Rightarrow> clock \<Rightarrow> string \<Rightarrow> database \<Rightarrow> log_entry list" where
  "consoleErrors faults clk strm database = snd (snd (simplePromotion faults clk strm database))"

fun isSuccess :: "response \<Rightarrow> bool" where
  "isSuccess (SuccessResponse tp tg details batch date) = True"
| "isSuccess _ = False"

fun reportedGraduated :: "response \<Rightarrow> nat" where
  "reportedGraduated (SuccessResponse tp tg details batch date) = tg"
| "reportedGraduated _ = 0"

fun reportedPromoted :: "response \<Rightarrow> nat" where
  "reportedPromoted (SuccessResponse tp tg details batch date) = tp"
| "reportedPromoted _ = 0"

text \<open>
  The migration counters of a stored record, an absent or \<open>null\<close> field read as \<open>0\<close> and
  as the empty history.
\<close>

definition generationOf :: "student \<Rightarrow> nat" where
  "generationOf s = (case migrationGeneration s of Value g \<Rightarrow> g | _ \<Rightarrow> 0)"

definition historyOf :: "student \<Rightarrow> migration_entry list" where
  "historyOf s = (case migrationHistory s of Value h \<Rightarrow> h | _ \<Rightarrow> [])"

text \<open>
  \<open>namesOf strm nm\<close>: \<open>nm\<close> gives the student collection of each semester of the stream,
  a different one for each semester.
\<close>

definition namesOf :: "string \<Rightarrow> (nat \<Rightarrow> string) \<Rightarrow> bool" where
  "namesOf strm nm =
     ((\<forall>k. 1 \<le> k \<and> k \<le> 8 \<longrightarrow> getStudentModel strm k = Inr (nm k)) \<and> inj_on nm {1..8})"

section \<open>Example data\<close>

text \<open>Concrete inputs on which the properties below are exercised.\<close>

definition exampleClock :: clock where
  "exampleClock =
     \<lparr>clockDate = 100, clockNow = 101, clockYear = ''2025'', clockHydrate = 102, clockError = 103\<rparr>"

definition exampleStudent :: "string \<Rightarrow> string \<Rightarrow> nat \<Rightarrow> bool field_value \<Rightarrow> student" where
  "exampleStudent sid strm sem flag =
     \<lparr> studentID = sid, name = ''A STUDENT'', stream = strm, semester = sem,
       parentPhone = ''919876543210'', languageSubject = Null, languageGroup = Null,
       isActive = flag, migrationGeneration = Value 0, originalSemester = Value sem,
       addedToSemesterDate = Value 50, lastMigrationDate = Null, migrationBatch = Null,
       migrationHistory = Value [], academicYear = Value ''2024'' \<rparr>"

definition emptyDatabase :: database where
  "emptyDatabase coll = []"

definition dbSem3 :: database where
  "dbSem3 = emptyDatabase(''bca_sem3_students'' :=
       [exampleStudent ''BCA003'' ''BCA'' 3 (Value True),
        exampleStudent ''BCA013'' ''BCA'' 3 (Value False)])"

definition dbInactive3 :: database where
  "dbInactive3 = emptyDatabase(''bca_sem3_students'' := [exampleStudent ''BCA013'' ''BCA'' 3 (Value False)])"

definition migratedStudent :: student where
  "migratedStudent =
     (exampleStudent ''BCA002'' ''BCA'' 3 (Value True))
       \<lparr> migrationGeneration := Value 1,
         originalSemester := Value 2,
         migrationHistory := Value [\<lparr>fromSemester = 2, toSemester = 3, migratedDate = 60,
                                    entryBatch = ''simple_promotion_BCA_61'', generation = 1\<rparr>] \<rparr>"

definition dbSem4 :: database where
  "dbSem4 = emptyDatabase(''bca_sem4_students'' := [exampleStudent ''BCA004'' ''BCA'' 4 (Value True)])"

definition dbSectionB :: database where
  "dbSectionB = emptyDatabase
     (''bcomsectionb_sem5_students'' := [exampleStudent ''BCB005'' ''BCOM SECTION B'' 5 (Value True)],
      ''bcomsectionb_sem6_students'' := [exampleStudent ''BCB006'' ''BCOM SECTION B'' 6 (Value True)],
      ''bcomsectionb_sem3_students'' := [exampleStudent ''BCB003'' ''BCOM SECTION B'' 3 (Value True)])"

definition dbSectionBInactive :: database where
  "dbSectionBInactive = emptyDatabase
     (''bcomsectionb_sem5_students'' := [exampleStudent ''BCB015'' ''BCOM SECTION B'' 5 (Value False)])"

definition dbInactive1 :: database where
  "dbInactive1 = emptyDatabase(''bca_sem1_students'' := [exampleStudent ''BCA011'' ''BCA'' 1 (Value False)])"

definition dbMixed :: database where
  "dbMixed = emptyDatabase
     (''bca_sem6_students'' := [exampleStudent ''BCA006'' ''BCA'' 6 (Value True)],
      ''bca_sem3_students'' := [exampleStudent ''BCA003'' ''BCA'' 3 (Value True),
                                exampleStudent ''BCA013'' ''BCA'' 3 (Value False)],
      ''bca_sem2_students'' := [exampleStudent ''BCA012'' ''BCA'' 2 (Value False)])"

definition dbGraduating :: database where
  "dbGraduating = emptyDatabase
     (''bca_sem6_students'' := [exampleStudent ''BCA061'' ''BCA'' 6 (Value True),
                                exampleStudent ''BCA062'' ''BCA'' 6 (Value True)],
      ''bca_sem5_students'' := [exampleStudent ''BCA005'' ''BCA'' 5 (Value True)])"

definition faultsAtGraduation :: fault_plan where
  "faultsAtGraduation = noFaults(DeleteMany ''bca_sem6_students'' := Some (StoreError ''connection closed''))"

definition dbTwoSources :: database where
  "dbTwoSources = emptyDatabase
     (''bca_sem3_students'' := [exampleStudent ''BCA003'' ''BCA'' 3 (Value True)],
      ''bca_sem2_students'' := [exampleStudent ''BCA002'' ''BCA'' 2 (Value True)])"

definition faultsAtInsert4 :: fault_plan where
  "faultsAtInsert4 = noFaults(InsertMany ''bca_sem4_students'' := Some (StoreError ''connection closed''))"

definition faultsAtInsert3 :: fault_plan where
  "faultsAtInsert3 = noFaults(InsertMany ''bca_sem3_students'' := Some (StoreError ''connection closed''))"


definition zeroOriginStudent :: student where
  "zeroOriginStudent = (exampleStudent ''BCA033'' ''BCA'' 3 (Value True))\<lparr>originalSemester := Value 0\<rparr>"


section \<open>Collection names of a recognised stream\<close>

lemma showNat_digit: "n < 10 \<Longrightarrow> showNat n = [digitChar n]"
  by (simp add: showNat.simps)

lemma digitChar_inj: "j < 10 \<Longrightarrow> k < 10 \<Longrightarrow> digitChar j = digitChar k \<Longrightarrow> j = k"
proof -
  assume a: "j < 10" "k < 10" "digitChar j = digitChar k"
  have c: "\<And>n. n < 10 \<Longrightarrow> n \<in> {0, 1, 2, 3, 4, 5, 6, 7, 8, 9::nat}" by auto
  from c[OF a(1)] c[OF a(2)] a(3) show "j = k"
    by (auto simp: digitChar_def)
qed

lemma validStreams_code:
  "strm \<in> set validStreams \<Longrightarrow> \<exists>code. map_of STREAM_MAPPINGS strm = Some code"
  by (auto simp: validStreams_def STREAM_MAPPINGS_def)

lemma validStreams_nonempty: "strm \<in> set validStreams \<Longrightarrow> strm \<noteq> []"
  by (auto simp: validStreams_def)

lemma getStudentModel_valid:
  assumes "strm \<in> set validStreams" "1 \<le> k" "k \<le> 8"
  shows "\<exists>code. map_of STREAM_MAPPINGS strm = Some code \<and>
           getStudentModel strm k = Inr (code @ ''_sem'' @ [digitChar k] @ ''_students'')"
proof -
  from validStreams_code[OF assms(1)] obtain code
    where c: "map_of STREAM_MAPPINGS strm = Some code" by blast
  have "showNat k = [digitChar k]" using assms(3) by (simp add: showNat_digit)
  then show ?thesis using c assms validStreams_nonempty[OF assms(1)]
    by (simp add: getStudentModel_def getCollectionName_def)
qed

lemma getStudentModel_inj:
  assumes "strm \<in> set validStreams" "1 \<le> j" "j \<le> 8" "1 \<le> k" "k \<le> 8"
    and "getStudentModel strm j = getStudentModel strm k"
  shows "j = k"
proof -
  from getStudentModel_valid[OF assms(1,2,3)] getStudentModel_valid[OF assms(1,4,5)] assms(6)
  have "digitChar j = digitChar k" by auto
  then show ?thesis using assms(3,5) by (intro digitChar_inj) auto
qed

lemma namesOf_exists:
  assumes "strm \<in> set validStreams"
  shows "\<exists>nm. namesOf strm nm"
proof -
  from validStreams_code[OF assms] obtain code
    where c: "map_of STREAM_MAPPINGS strm = Some code" by blast
  let ?nm = "\<lambda>k. code @ ''_sem'' @ [digitChar k] @ ''_students''"
  have a: "\<forall>k. 1 \<le> k \<and> k \<le> 8 \<longrightarrow> getStudentModel strm k = Inr (?nm k)"
  proof (intro allI impI)
    fix k :: nat
    assume k: "1 \<le> k \<and> k \<le> 8"
    then obtain code' where "map_of STREAM_MAPPINGS strm = Some code'"
      and m: "getStudentModel strm k = Inr (code' @ ''_sem'' @ [digitChar k] @ ''_students'')"
      using getStudentModel_valid[OF assms, of k] by blast
    with c have "code' = code" by simp
    with m show "getStudentModel strm k = Inr (?nm k)" by simp
  qed
  have i: "inj_on ?nm {1..8}"
  proof (rule inj_onI)
    fix x y :: nat
    assume x: "x \<in> {1..8}" and y: "y \<in> {1..8}" and e: "?nm x = ?nm y"
    from e have "digitChar x = digitChar y" by simp
    moreover have "x < 10" "y < 10" using x y by simp_all
    ultimately show "x = y" by (rule digitChar_inj[rotated 2])
  qed
  from a i have "namesOf strm ?nm" unfolding namesOf_def by (rule conjI)
  then show ?thesis by (rule exI[of "namesOf strm"])
qed

lemma namesOf_model: "namesOf strm nm \<Longrightarrow> 1 \<le> k \<Longrightarrow> k \<le> 8 \<Longrightarrow> getStudentModel strm k = Inr (nm k)"
  by (simp add: namesOf_def)

lemma namesOf_bucket: "namesOf strm nm \<Longrightarrow> 1 \<le> k \<Longrightarrow> k \<le> 8 \<Longrightarrow> bucket d strm k = d (nm k)"
  by (simp add: namesOf_def bucket_def)

lemma namesOf_distinct:
  "namesOf strm nm \<Longrightarrow> 1 \<le> j \<Longrightarrow> j \<le> 8 \<Longrightarrow> 1 \<le> k \<Longrightarrow> k \<le> 8 \<Longrightarrow> j \<noteq> k \<Longrightarrow> nm j \<noteq> nm k"
  by (auto simp: namesOf_def dest: inj_onD)

section \<open>One promotion pair\<close>

lemma readDocs_session [simp]: "readDocs WithSession st coll = store st coll"
  by (simp add: readDocs_def)

lemma writeDocs_session [simp]:
  "writeDocs WithSession coll docs st = st\<lparr>store := (store st)(coll := docs)\<rparr>"
  by (simp add: writeDocs_def)

lemma studentRef_hydrate [simp]: "studentRef \<circ> hydrate clk = studentRef"
  by (rule ext) (simp add: studentRef_def hydrate_def)

lemma promotedRecord_comp:
  "castOnInsert \<circ>
     (promoteStudent (clockDate clk) (promotionBatchId strm (clockNow clk)) (clockYear clk) f t \<circ>
      hydrate clk) = promotedRecord clk strm f t"
  by (rule ext) (simp add: promotedRecord_def)

lemma promotePair_unfold:
  assumes src: "getStudentModel strm f = Inr src"
    and tgt: "getStudentModel strm t = Inr tgt"
  shows "promotePair faults clk strm (f, t) st =
     (case faults (FindActive src) of
        Some e \<Rightarrow> failPair f t e st
      | None \<Rightarrow>
          if filter getActiveStudentQuery (store st src) \<noteq> [] then
            (case faults (InsertMany tgt) of
               Some e \<Rightarrow> failPair f t e st
             | None \<Rightarrow>
                 (case faults (DeleteMany src) of
                    Some e \<Rightarrow> failPair f t e
                       (st\<lparr>store := (store st)(tgt := store st tgt @ promotedFrom clk strm f t (store st src))\<rparr>)
                  | None \<Rightarrow>
                      (None,
                       st\<lparr>store := (store st)(tgt := store st tgt @ promotedFrom clk strm f t (store st src),
                                             src := []),
                          totalPromoted := totalPromoted st + length (filter getActiveStudentQuery (store st src)),
                          promotionDetails := promotionDetails st @
                             [Promotion f t (length (filter getActiveStudentQuery (store st src)))
                                (map studentRef (filter getActiveStudentQuery (store st src)))]\<rparr>)))
          else (None, st))"
  by (simp add: promotePair_def src tgt Let_def promotedFrom_def promotedRecord_comp
           split: option.splits)

lemma promotePair_success:
  assumes src: "getStudentModel strm f = Inr src"
    and tgt: "getStudentModel strm t = Inr tgt"
    and ne: "src \<noteq> tgt"
    and run: "promotePair faults clk strm (f, t) st = (None, st')"
  shows "store st' = (store st)(tgt := store st tgt @ promotedFrom clk strm f t (store st src),
                                src := remainder (store st src))"
    and "totalPromoted st' = totalPromoted st + length (filter getActiveStudentQuery (store st src))"
    and "totalGraduated st' = totalGraduated st"
    and "errorLog st' = errorLog st"
    and "faults (FindActive src) = None"
    and "filter getActiveStudentQuery (store st src) \<noteq> [] \<Longrightarrow>
           faults (InsertMany tgt) = None \<and> faults (DeleteMany src) = None"
proof -
  note u = run[unfolded promotePair_unfold[OF src tgt]]
  show fa: "faults (FindActive src) = None"
    using u by (cases "faults (FindActive src)") (simp_all add: failPair_def)
  show ops: "filter getActiveStudentQuery (store st src) \<noteq> [] \<Longrightarrow>
           faults (InsertMany tgt) = None \<and> faults (DeleteMany src) = None"
    using u fa by (cases "faults (InsertMany tgt)"; cases "faults (DeleteMany src)") (simp_all add: failPair_def)
  show "store st' = (store st)(tgt := store st tgt @ promotedFrom clk strm f t (store st src),
                                src := remainder (store st src))"
  proof (cases "filter getActiveStudentQuery (store st src) = []")
    case True
    then have "st' = st" using u fa by simp
    moreover have "(store st)(tgt := store st tgt @ promotedFrom clk strm f t (store st src),
                                src := remainder (store st src)) = store st"
      using True by (auto simp: promotedFrom_def remainder_def)
    ultimately show ?thesis by simp
  next
    case False
    with u fa ops show ?thesis by (auto simp: remainder_def)
  qed
  show "totalPromoted st' = totalPromoted st + length (filter getActiveStudentQuery (store st src))"
    using u fa ops by (cases "filter getActiveStudentQuery (store st src) = []") auto
  show "totalGraduated st' = totalGraduated st"
    using u fa ops by (cases "filter getActiveStudentQuery (store st src) = []") auto
  show "errorLog st' = errorLog st"
    using u fa ops by (cases "filter getActiveStudentQuery (store st src) = []") auto
qed

lemma promotePair_failure:
  assumes src: "getStudentModel strm f = Inr src"
    and tgt: "getStudentModel strm t = Inr tgt"
    and run: "promotePair faults clk strm (f, t) st = (Some e, st')"
  shows "errorLog st' = errorLog st @ [PromotionError f t e]"
    and "faults (FindActive src) = Some e \<or> faults (InsertMany tgt) = Some e \<or> faults (DeleteMany src) = Some e"
proof -
  note u = run[unfolded promotePair_unfold[OF src tgt]]
  show "errorLog st' = errorLog st @ [PromotionError f t e]"
    using u by (auto simp: failPair_def split: option.splits if_splits)
  show "faults (FindActive src) = Some e \<or> faults (InsertMany tgt) = Some e \<or> faults (DeleteMany src) = Some e"
    using u by (auto simp: failPair_def split: option.splits if_splits)
qed

section \<open>The loop over the pairs\<close>

lemma runPairs_descending:
  assumes run: "runPairs faults clk strm (descendingPairs n) st = (None, st')"
    and nm: "\<forall>k. 1 \<le> k \<and> k \<le> Suc n \<longrightarrow> getStudentModel strm k = Inr (nm k)"
    and inj: "inj_on nm {1..Suc n}"
  shows "(\<forall>j. 2 \<le> j \<and> j \<le> n \<longrightarrow>
            store st' (nm j) = remainder (store st (nm j)) @
                               promotedFrom clk strm (j - 1) j (store st (nm (j - 1))))
       \<and> (1 \<le> n \<longrightarrow> store st' (nm (Suc n)) =
             store st (nm (Suc n)) @ promotedFrom clk strm n (Suc n) (store st (nm n)))
       \<and> (1 \<le> n \<longrightarrow> store st' (nm 1) = remainder (store st (nm 1)))
       \<and> (\<forall>c. c \<notin> nm ` {1..Suc n} \<longrightarrow> store st' c = store st c)
       \<and> (n = 0 \<longrightarrow> store st' = store st)
       \<and> totalGraduated st' = totalGraduated st
       \<and> errorLog st' = errorLog st
       \<and> totalPromoted st' = totalPromoted st +
            (\<Sum>k = 1..n. length (filter getActiveStudentQuery (store st (nm k))))
       \<and> (\<forall>k. 1 \<le> k \<and> k \<le> n \<longrightarrow> faults (FindActive (nm k)) = None \<and>
             (filter getActiveStudentQuery (store st (nm k)) \<noteq> [] \<longrightarrow>
                faults (InsertMany (nm (Suc k))) = None \<and> faults (DeleteMany (nm k)) = None))"
  using run nm inj
proof (induction n arbitrary: st)
  case 0
  then show ?case by simp
next
  case (Suc n)
  let ?src = "nm (Suc n)" and ?tgt = "nm (Suc (Suc n))"
  have src: "getStudentModel strm (Suc n) = Inr ?src" using Suc.prems(2) by simp
  have tgt: "getStudentModel strm (Suc (Suc n)) = Inr ?tgt" using Suc.prems(2) by simp
  have diff: "\<And>a b. a \<in> {1..Suc (Suc n)} \<Longrightarrow> b \<in> {1..Suc (Suc n)} \<Longrightarrow> a \<noteq> b \<Longrightarrow> nm a \<noteq> nm b"
    using Suc.prems(3) by (auto dest: inj_onD)
  have ne: "?src \<noteq> ?tgt" by (rule diff) auto
  from Suc.prems(1) obtain st1 where
    p1: "promotePair faults clk strm (Suc n, Suc (Suc n)) st = (None, st1)"
    and r1: "runPairs faults clk strm (descendingPairs n) st1 = (None, st')"
    by (auto split: prod.splits option.splits)
  note s1 = promotePair_success[OF src tgt ne p1]
  have nm': "\<forall>k. 1 \<le> k \<and> k \<le> Suc n \<longrightarrow> getStudentModel strm k = Inr (nm k)"
    using Suc.prems(2) by simp
  have inj': "inj_on nm {1..Suc n}"
    using Suc.prems(3) by (rule inj_on_subset) auto
  note ih = Suc.IH[OF r1 nm' inj']
  have low: "\<And>k. 1 \<le> k \<Longrightarrow> k \<le> n \<Longrightarrow> store st1 (nm k) = store st (nm k)"
  proof -
    fix k assume k: "1 \<le> k" "k \<le> n"
    have "nm k \<noteq> ?src" using k by (intro diff) auto
    moreover have "nm k \<noteq> ?tgt" using k by (intro diff) auto
    ultimately
    show "store st1 (nm k) = store st (nm k)" by (simp add: s1(1))
  qed
  have at_src: "store st1 ?src = remainder (store st ?src)" by (simp add: s1(1))
  have at_tgt: "store st1 ?tgt = store st ?tgt @ promotedFrom clk strm (Suc n) (Suc (Suc n)) (store st ?src)"
    using ne by (simp add: s1(1))
  have out1: "\<And>c. c \<notin> nm ` {1..Suc (Suc n)} \<Longrightarrow> store st1 c = store st c"
  proof -
    fix c assume "c \<notin> nm ` {1..Suc (Suc n)}"
    then have "c \<noteq> ?src" "c \<noteq> ?tgt" by auto
    then show "store st1 c = store st c" by (simp add: s1(1))
  qed
  have tgt_out: "?tgt \<notin> nm ` {1..Suc n}"
  proof
    assume "?tgt \<in> nm ` {1..Suc n}"
    then obtain a where "a \<in> {1..Suc n}" "nm a = ?tgt" by auto
    then show False using diff[of a "Suc (Suc n)"] by auto
  qed
  have c1: "\<forall>j. 2 \<le> j \<and> j \<le> Suc n \<longrightarrow>
            store st' (nm j) = remainder (store st (nm j)) @
                               promotedFrom clk strm (j - 1) j (store st (nm (j - 1)))"
  proof (intro allI impI)
    fix j assume j: "2 \<le> j \<and> j \<le> Suc n"
    show "store st' (nm j) = remainder (store st (nm j)) @
                               promotedFrom clk strm (j - 1) j (store st (nm (j - 1)))"
    proof (cases "j = Suc n")
      case True
      then have n1: "1 \<le> n" using j by simp
      from ih n1 have "store st' (nm (Suc n)) =
             store st1 (nm (Suc n)) @ promotedFrom clk strm n (Suc n) (store st1 (nm n))" by blast
      then show ?thesis using True at_src low[of n] n1 by simp
    next
      case False
      then have jn: "2 \<le> j \<and> j \<le> n" using j by simp
      from ih jn have "store st' (nm j) = remainder (store st1 (nm j)) @
                               promotedFrom clk strm (j - 1) j (store st1 (nm (j - 1)))" by blast
      moreover have "store st1 (nm j) = store st (nm j)" using jn by (intro low) auto
      moreover have "store st1 (nm (j - 1)) = store st (nm (j - 1))" using jn by (intro low) auto
      ultimately show ?thesis by simp
    qed
  qed
  have c2: "store st' ?tgt = store st ?tgt @ promotedFrom clk strm (Suc n) (Suc (Suc n)) (store st ?src)"
  proof -
    from ih tgt_out have "store st' ?tgt = store st1 ?tgt" by blast
    then show ?thesis using at_tgt by simp
  qed
  have c3: "store st' (nm 1) = remainder (store st (nm 1))"
  proof (cases "n = 0")
    case True
    with ih have "store st' = store st1" by blast
    then show ?thesis using True at_src by simp
  next
    case False
    then have n1: "1 \<le> n" by simp
    with ih have "store st' (nm 1) = remainder (store st1 (nm 1))" by blast
    then show ?thesis using low[of 1] n1 by simp
  qed
  have c4: "\<forall>c. c \<notin> nm ` {1..Suc (Suc n)} \<longrightarrow> store st' c = store st c"
  proof (intro allI impI)
    fix c assume c: "c \<notin> nm ` {1..Suc (Suc n)}"
    then have "c \<notin> nm ` {1..Suc n}" by auto
    with ih have "store st' c = store st1 c" by blast
    then show "store st' c = store st c" using out1[OF c] by simp
  qed
  have c6: "totalGraduated st' = totalGraduated st" using ih s1(3) by simp
  have c7: "errorLog st' = errorLog st" using ih s1(4) by simp
  have sum_eq: "(\<Sum>k = 1..n. length (filter getActiveStudentQuery (store st1 (nm k)))) =
                (\<Sum>k = 1..n. length (filter getActiveStudentQuery (store st (nm k))))"
    by (rule sum.cong) (auto simp: low)
  have c8: "totalPromoted st' = totalPromoted st +
            (\<Sum>k = 1..Suc n. length (filter getActiveStudentQuery (store st (nm k))))"
  proof -
    from ih have "totalPromoted st' = totalPromoted st1 +
            (\<Sum>k = 1..n. length (filter getActiveStudentQuery (store st1 (nm k))))" by blast
    then show ?thesis using sum_eq s1(2) by simp
  qed
  have c9: "\<forall>k. 1 \<le> k \<and> k \<le> Suc n \<longrightarrow> faults (FindActive (nm k)) = None \<and>
             (filter getActiveStudentQuery (store st (nm k)) \<noteq> [] \<longrightarrow>
                faults (InsertMany (nm (Suc k))) = None \<and> faults (DeleteMany (nm k)) = None)"
  proof (intro allI impI)
    fix k assume k: "1 \<le> k \<and> k \<le> Suc n"
    show "faults (FindActive (nm k)) = None \<and>
             (filter getActiveStudentQuery (store st (nm k)) \<noteq> [] \<longrightarrow>
                faults (InsertMany (nm (Suc k))) = None \<and> faults (DeleteMany (nm k)) = None)"
    proof (cases "k = Suc n")
      case True
      then show ?thesis using s1(5) s1(6) by simp
    next
      case False
      then have kn: "1 \<le> k \<and> k \<le> n" using k by simp
      from ih kn have "faults (FindActive (nm k)) = None \<and>
             (filter getActiveStudentQuery (store st1 (nm k)) \<noteq> [] \<longrightarrow>
                faults (InsertMany (nm (Suc k))) = None \<and> faults (DeleteMany (nm k)) = None)" by blast
      then show ?thesis using low[of k] kn by simp
    qed
  qed
  from c1 c2 c3 c4 c6 c7 c8 c9 show ?case by simp
qed

section \<open>Graduation step and transaction\<close>

lemma graduationStep_unfold:
  assumes "getStudentModel strm 6 = Inr c6"
  shows "graduationStep faults clk strm st =
     (case graduationFault faults c6 (store st c6) of
        Some e \<Rightarrow> logGraduationError e st
      | None \<Rightarrow>
          if store st c6 = [] then st
          else st\<lparr>store := (store st)(c6 := []),
                  totalGraduated := length (store st c6),
                  promotionDetails := promotionDetails st @
                    [Graduation 6 (length (store st c6)) (map studentRef (store st c6))]\<rparr>)"
  by (simp add: graduationStep_def graduationFault_def assms Let_def split: option.splits)

text \<open>No step of the callback writes outside the session.\<close>

lemma graduationStep_committed: "committed (graduationStep faults clk strm st) = committed st"
  by (simp add: graduationStep_def logGraduationError_def Let_def split: sum.splits option.splits)

lemma promotePair_committed: "committed (snd (promotePair faults clk strm pair st)) = committed st"
  by (simp add: promotePair_def failPair_def Let_def split: sum.splits option.splits)

lemma runPairs_committed: "committed (snd (runPairs faults clk strm ps st)) = committed st"
proof (induction ps arbitrary: st)
  case Nil
  then show ?case by simp
next
  case (Cons pair ps)
  obtain r st1 where p: "promotePair faults clk strm pair st = (r, st1)"
    by (cases "promotePair faults clk strm pair st") simp
  have c: "committed st1 = committed st" using promotePair_committed[of faults clk strm pair st] p by simp
  show ?case
  proof (cases r)
    case None
    with p c Cons.IH[of st1] show ?thesis by simp
  next
    case (Some e)
    with p c show ?thesis by simp
  qed
qed

lemma graduationStep_effect:
  assumes "getStudentModel strm 6 = Inr c6"
  shows "store (graduationStep faults clk strm st) =
           (if graduationFault faults c6 (store st c6) = None then (store st)(c6 := []) else store st)"
    and "totalGraduated (graduationStep faults clk strm st) =
           (if graduationFault faults c6 (store st c6) = None \<and> store st c6 \<noteq> [] then length (store st c6)
            else totalGraduated st)"
    and "totalPromoted (graduationStep faults clk strm st) = totalPromoted st"
    and "errorLog (graduationStep faults clk strm st) =
           (case graduationFault faults c6 (store st c6) of
              None \<Rightarrow> errorLog st | Some e \<Rightarrow> errorLog st @ [GraduationError e])"
proof -
  note u = graduationStep_unfold[OF assms, of faults clk st]
  show "store (graduationStep faults clk strm st) =
           (if graduationFault faults c6 (store st c6) = None then (store st)(c6 := []) else store st)"
    unfolding u by (auto simp: logGraduationError_def split: option.splits)
  show "totalGraduated (graduationStep faults clk strm st) =
           (if graduationFault faults c6 (store st c6) = None \<and> store st c6 \<noteq> [] then length (store st c6)
            else totalGraduated st)"
    unfolding u by (auto simp: logGraduationError_def split: option.splits)
  show "totalPromoted (graduationStep faults clk strm st) = totalPromoted st"
    unfolding u by (auto simp: logGraduationError_def split: option.splits)
  show "errorLog (graduationStep faults clk strm st) =
           (case graduationFault faults c6 (store st c6) of
              None \<Rightarrow> errorLog st | Some e \<Rightarrow> errorLog st @ [GraduationError e])"
    unfolding u by (auto simp: logGraduationError_def split: option.splits)
qed

lemma semesterRange_six: "6 \<in> set (semesterRange strm)"
  by (simp add: semesterRange_def)

lemma transactionBody_unfold:
  "transactionBody faults clk strm st =
     runPairs faults clk strm (promotionPairs strm) (graduationStep faults clk strm st)"
  by (simp add: transactionBody_def semesterRange_six)

lemma initialState_simps [simp]:
  "committed (initialState d) = d"
  "store (initialState d) = d"
  "totalPromoted (initialState d) = 0"
  "totalGraduated (initialState d) = 0"
  "promotionDetails (initialState d) = []"
  "errorLog (initialState d) = []"
  by (simp_all add: initialState_def)

lemma initialState_view: "(initialState d)\<lparr>store := d\<rparr> = initialState d"
  by (simp add: initialState_def)

lemma errorAnswer_not_success: "\<not> isSuccess (errorAnswer clk e)"
  by (cases e) (simp_all add: errorAnswer_def)

lemma withTransaction_initial:
  "withTransaction faults callback (initialState d) =
     (case callback (initialState d) of
        (Some e, st') \<Rightarrow> (Some e, st'\<lparr>store := committed st'\<rparr>)
      | (None, st') \<Rightarrow>
          (case faults CommitTransaction of
             Some e \<Rightarrow> (Some e, st'\<lparr>store := committed st'\<rparr>)
           | None \<Rightarrow> (None, st'\<lparr>committed := store st'\<rparr>)))"
  by (simp add: withTransaction_def initialState_view)

text \<open>What the handler returns when the run ends with a report.\<close>

lemma simplePromotion_success:
  assumes valid: "strm \<in> set validStreams"
    and ok: "isSuccess (promotionResponse faults clk strm database)"
  shows "\<exists>st. transactionBody faults clk strm
                (initialState database) = (None, st)
           \<and> databaseAfter faults clk strm database = store st
           \<and> consoleErrors faults clk strm database = errorLog st
           \<and> reportedGraduated (promotionResponse faults clk strm database) = totalGraduated st
           \<and> reportedPromoted (promotionResponse faults clk strm database) = totalPromoted st
           \<and> faults StartSession = None \<and> faults CommitTransaction = None"
  using ok valid validStreams_nonempty[OF valid]
  by (auto simp: promotionResponse_def databaseAfter_def consoleErrors_def simplePromotion_def
                 withTransaction_initial errorMiddleware_def errorAnswer_not_success
           split: option.splits prod.splits)

section \<open>Outcome of a successful run\<close>

lemma promotionPairs_full: "strm \<noteq> ''BCom Section B'' \<Longrightarrow> promotionPairs strm = descendingPairs 5"
  by (simp add: promotionPairs_def)

text \<open>The outcome of a successful run on a stream with the full semester range.\<close>

lemma full_range_outcome:
  assumes valid: "strm \<in> set validStreams"
    and full: "strm \<noteq> ''BCom Section B''"
    and ok: "isSuccess (promotionResponse faults clk strm database)"
    and nm: "namesOf strm nm"
  shows "databaseAfter faults clk strm database (nm 1) = remainder (database (nm 1))"
    and "\<And>j. 2 \<le> j \<Longrightarrow> j \<le> 5 \<Longrightarrow>
           databaseAfter faults clk strm database (nm j) =
             remainder (database (nm j)) @ promotedFrom clk strm (j - 1) j (database (nm (j - 1)))"
    and "databaseAfter faults clk strm database (nm 6) =
           (if graduationFault faults (nm 6) (database (nm 6)) = None then [] else database (nm 6)) @
           promotedFrom clk strm 5 6 (database (nm 5))"
    and "\<And>c. c \<notin> nm ` {1..6} \<Longrightarrow> databaseAfter faults clk strm database c = database c"
    and "reportedGraduated (promotionResponse faults clk strm database) =
           (if graduationFault faults (nm 6) (database (nm 6)) = None then length (database (nm 6)) else 0)"
    and "reportedPromoted (promotionResponse faults clk strm database) =
           (\<Sum>k = 1..5. length (filter getActiveStudentQuery (database (nm k))))"
    and "consoleErrors faults clk strm database =
           (case graduationFault faults (nm 6) (database (nm 6)) of
              None \<Rightarrow> [] | Some e \<Rightarrow> [GraduationError e])"
    and "\<And>k. 1 \<le> k \<Longrightarrow> k \<le> 5 \<Longrightarrow> filter getActiveStudentQuery (database (nm k)) \<noteq> [] \<Longrightarrow>
           faults (InsertMany (nm (Suc k))) = None \<and> faults (DeleteMany (nm k)) = None"
proof -
  let ?st0 = "initialState database"
  let ?g = "graduationStep faults clk strm ?st0"
  from simplePromotion_success[OF valid ok] obtain st where
    tb: "transactionBody faults clk strm ?st0 = (None, st)"
    and da: "databaseAfter faults clk strm database = store st"
    and ce: "consoleErrors faults clk strm database = errorLog st"
    and rg: "reportedGraduated (promotionResponse faults clk strm database) = totalGraduated st"
    and rp: "reportedPromoted (promotionResponse faults clk strm database) = totalPromoted st"
    by blast
  have m6: "getStudentModel strm 6 = Inr (nm 6)" using nm by (simp add: namesOf_def)
  note ge = graduationStep_effect[OF m6, of faults clk ?st0]
  have run: "runPairs faults clk strm (descendingPairs 5) ?g = (None, st)"
    using tb by (simp add: transactionBody_unfold promotionPairs_full[OF full])
  have nm5: "\<forall>k. 1 \<le> k \<and> k \<le> Suc 5 \<longrightarrow> getStudentModel strm k = Inr (nm k)"
    using nm by (simp add: namesOf_def)
  have inj5: "inj_on nm {1..Suc 5}"
    using nm unfolding namesOf_def by (auto intro: inj_on_subset)
  note r = runPairs_descending[OF run nm5 inj5]
  have low: "\<And>k. 1 \<le> k \<Longrightarrow> k \<le> 5 \<Longrightarrow> store ?g (nm k) = database (nm k)"
  proof -
    fix k :: nat assume k: "1 \<le> k" "k \<le> 5"
    then have "nm k \<noteq> nm 6" using namesOf_distinct[OF nm, of k 6] by simp
    then show "store ?g (nm k) = database (nm k)" by (simp add: ge(1))
  qed
  have g6: "store ?g (nm 6) =
     (if graduationFault faults (nm 6) (database (nm 6)) = None then [] else database (nm 6))"
    by (simp add: ge(1))
  show "databaseAfter faults clk strm database (nm 1) = remainder (database (nm 1))"
    using r low[of 1] by (simp add: da)
  show "\<And>j. 2 \<le> j \<Longrightarrow> j \<le> 5 \<Longrightarrow>
           databaseAfter faults clk strm database (nm j) =
             remainder (database (nm j)) @ promotedFrom clk strm (j - 1) j (database (nm (j - 1)))"
  proof -
    fix j :: nat assume j: "2 \<le> j" "j \<le> 5"
    from r j have "store st (nm j) = remainder (store ?g (nm j)) @
                               promotedFrom clk strm (j - 1) j (store ?g (nm (j - 1)))" by blast
    moreover have "store ?g (nm j) = database (nm j)" using j by (intro low) auto
    moreover have "store ?g (nm (j - 1)) = database (nm (j - 1))" using j by (intro low) auto
    ultimately show "databaseAfter faults clk strm database (nm j) =
             remainder (database (nm j)) @ promotedFrom clk strm (j - 1) j (database (nm (j - 1)))"
      by (simp add: da)
  qed
  show "databaseAfter faults clk strm database (nm 6) =
           (if graduationFault faults (nm 6) (database (nm 6)) = None then [] else database (nm 6)) @
           promotedFrom clk strm 5 6 (database (nm 5))"
  proof -
    from r have "store st (nm (Suc 5)) = store ?g (nm (Suc 5)) @
        promotedFrom clk strm 5 (Suc 5) (store ?g (nm 5))" by simp
    then show ?thesis using g6 low[of 5] by (simp add: da)
  qed
  show "\<And>c. c \<notin> nm ` {1..6} \<Longrightarrow> databaseAfter faults clk strm database c = database c"
  proof -
    fix c assume c: "c \<notin> nm ` {1..6}"
    then have "c \<noteq> nm 6" by auto
    moreover from r c have "store st c = store ?g c" by simp
    ultimately show "databaseAfter faults clk strm database c = database c"
      by (simp add: da ge(1))
  qed
  show "reportedGraduated (promotionResponse faults clk strm database) =
           (if graduationFault faults (nm 6) (database (nm 6)) = None then length (database (nm 6)) else 0)"
    using r by (simp add: rg ge(2))
  have sum_eq: "(\<Sum>k = 1..5. length (filter getActiveStudentQuery (store ?g (nm k)))) =
                (\<Sum>k = 1..5. length (filter getActiveStudentQuery (database (nm k))))"
    by (rule sum.cong) (auto simp: low)
  show "reportedPromoted (promotionResponse faults clk strm database) =
           (\<Sum>k = 1..5. length (filter getActiveStudentQuery (database (nm k))))"
  proof -
    from r have "totalPromoted st = totalPromoted ?g +
       (\<Sum>k = 1..5. length (filter getActiveStudentQuery (store ?g (nm k))))" by blast
    then show ?thesis using sum_eq by (simp add: rp ge(3))
  qed
  show "consoleErrors faults clk strm database =
           (case graduationFault faults (nm 6) (database (nm 6)) of
              None \<Rightarrow> [] | Some e \<Rightarrow> [GraduationError e])"
  proof -
    from r have "errorLog st = errorLog ?g" by blast
    then show ?thesis by (simp add: ce ge(4) split: option.splits)
  qed
  show "\<And>k. 1 \<le> k \<Longrightarrow> k \<le> 5 \<Longrightarrow> filter getActiveStudentQuery (database (nm k)) \<noteq> [] \<Longrightarrow>
           faults (InsertMany (nm (Suc k))) = None \<and> faults (DeleteMany (nm k)) = None"
  proof -
    fix k :: nat
    assume k: "1 \<le> k" "k \<le> 5" and a: "filter getActiveStudentQuery (database (nm k)) \<noteq> []"
    from r k have "filter getActiveStudentQuery (store ?g (nm k)) \<noteq> [] \<longrightarrow>
                faults (InsertMany (nm (Suc k))) = None \<and> faults (DeleteMany (nm k)) = None" by blast
    then show "faults (InsertMany (nm (Suc k))) = None \<and> faults (DeleteMany (nm k)) = None"
      using a low[OF k] by simp
  qed
qed

lemma sectionB_valid: "''BCom Section B'' \<in> set validStreams"
  by (simp add: validStreams_def)

text \<open>The outcome of a successful run on the stream limited to semesters 5 and 6.\<close>

lemma sectionB_outcome:
  assumes ok: "isSuccess (promotionResponse faults clk ''BCom Section B'' database)"
    and nm: "namesOf ''BCom Section B'' nm"
  shows "databaseAfter faults clk ''BCom Section B'' database (nm 5) = remainder (database (nm 5))"
    and "databaseAfter faults clk ''BCom Section B'' database (nm 6) =
           (if graduationFault faults (nm 6) (database (nm 6)) = None then [] else database (nm 6)) @
           promotedFrom clk ''BCom Section B'' 5 6 (database (nm 5))"
    and "\<And>c. c \<noteq> nm 5 \<Longrightarrow> c \<noteq> nm 6 \<Longrightarrow>
           databaseAfter faults clk ''BCom Section B'' database c = database c"
    and "reportedGraduated (promotionResponse faults clk ''BCom Section B'' database) =
           (if graduationFault faults (nm 6) (database (nm 6)) = None then length (database (nm 6)) else 0)"
    and "reportedPromoted (promotionResponse faults clk ''BCom Section B'' database) =
           length (filter getActiveStudentQuery (database (nm 5)))"
    and "consoleErrors faults clk ''BCom Section B'' database =
           (case graduationFault faults (nm 6) (database (nm 6)) of
              None \<Rightarrow> [] | Some e \<Rightarrow> [GraduationError e])"
    and "filter getActiveStudentQuery (database (nm 5)) \<noteq> [] \<Longrightarrow>
           faults (InsertMany (nm 6)) = None \<and> faults (DeleteMany (nm 5)) = None"
proof -
  let ?B = "''BCom Section B''"
  let ?st0 = "initialState database"
  let ?g = "graduationStep faults clk ?B ?st0"
  from simplePromotion_success[OF sectionB_valid ok] obtain st where
    tb: "transactionBody faults clk ?B ?st0 = (None, st)"
    and da: "databaseAfter faults clk ?B database = store st"
    and ce: "consoleErrors faults clk ?B database = errorLog st"
    and rg: "reportedGraduated (promotionResponse faults clk ?B database) = totalGraduated st"
    and rp: "reportedPromoted (promotionResponse faults clk ?B database) = totalPromoted st"
    by blast
  have m5: "getStudentModel ?B 5 = Inr (nm 5)" using nm by (simp add: namesOf_def)
  have m6: "getStudentModel ?B 6 = Inr (nm 6)" using nm by (simp add: namesOf_def)
  have ne: "nm 5 \<noteq> nm 6" using namesOf_distinct[OF nm, of 5 6] by simp
  note ge = graduationStep_effect[OF m6, of faults clk ?st0]
  have "runPairs faults clk ?B [(5, 6)] ?g = (None, st)"
    using tb by (simp add: transactionBody_unfold promotionPairs_def)
  then have p: "promotePair faults clk ?B (5, 6) ?g = (None, st)"
    by (auto split: prod.splits option.splits)
  note s = promotePair_success[OF m5 m6 ne p]
  have g5: "store ?g (nm 5) = database (nm 5)" using ne by (simp add: ge(1))
  have g6: "store ?g (nm 6) =
     (if graduationFault faults (nm 6) (database (nm 6)) = None then [] else database (nm 6))"
    by (simp add: ge(1))
  show "databaseAfter faults clk ?B database (nm 5) = remainder (database (nm 5))"
    using g5 by (simp add: da s(1))
  show "databaseAfter faults clk ?B database (nm 6) =
           (if graduationFault faults (nm 6) (database (nm 6)) = None then [] else database (nm 6)) @
           promotedFrom clk ?B 5 6 (database (nm 5))"
    using g5 g6 ne by (simp add: da s(1))
  show "\<And>c. c \<noteq> nm 5 \<Longrightarrow> c \<noteq> nm 6 \<Longrightarrow> databaseAfter faults clk ?B database c = database c"
    by (simp add: da s(1) ge(1))
  show "reportedGraduated (promotionResponse faults clk ?B database) =
           (if graduationFault faults (nm 6) (database (nm 6)) = None then length (database (nm 6)) else 0)"
    by (simp add: rg s(3) ge(2))
  show "reportedPromoted (promotionResponse faults clk ?B database) =
           length (filter getActiveStudentQuery (database (nm 5)))"
    using g5 by (simp add: rp s(2) ge(3))
  show "consoleErrors faults clk ?B database =
           (case graduationFault faults (nm 6) (database (nm 6)) of
              None \<Rightarrow> [] | Some e \<Rightarrow> [GraduationError e])"
    by (simp add: ce s(4) ge(4) split: option.splits)
  show "filter getActiveStudentQuery (database (nm 5)) \<noteq> [] \<Longrightarrow>
           faults (InsertMany (nm 6)) = None \<and> faults (DeleteMany (nm 5)) = None"
    using s(6) g5 by simp
qed

section \<open>The promoted record\<close>

lemma jsOrNum_hydrated_generation:
  "jsOrNum (migrationGeneration (hydrate clk s)) 0 = generationOf s"
  by (simp add: hydrate_def orDefault_def jsOrNum_def generationOf_def split: field_value.splits)

lemma jsOrList_hydrated_history:
  "jsOrList (migrationHistory (hydrate clk s)) = historyOf s"
  by (simp add: hydrate_def orDefault_def jsOrList_def historyOf_def split: field_value.splits)

lemma jsOrNum_hydrated_original:
  "jsOrNum (originalSemester (hydrate clk s)) f =
     (case originalSemester s of
        Value v \<Rightarrow> if v = 0 then f else v
      | Null \<Rightarrow> f
      | Absent \<Rightarrow> if semester s = 0 then f else semester s)"
  by (simp add: hydrate_def orDefault_def jsOrNum_def split: field_value.splits)

lemma promotedRecord_fields:
  "semester (promotedRecord clk strm f t s) = t"
  "isActive (promotedRecord clk strm f t s) = Value True"
  "migrationGeneration (promotedRecord clk strm f t s) = Value (generationOf s + 1)"
  "originalSemester (promotedRecord clk strm f t s) =
     Value (case originalSemester s of
              Value v \<Rightarrow> if v = 0 then f else v
            | Null \<Rightarrow> f
            | Absent \<Rightarrow> if semester s = 0 then f else semester s)"
  "lastMigrationDate (promotedRecord clk strm f t s) = Value (clockDate clk)"
  "addedToSemesterDate (promotedRecord clk strm f t s) = Value (clockDate clk)"
  "migrationBatch (promotedRecord clk strm f t s) = Value (promotionBatchId strm (clockNow clk))"
  "migrationHistory (promotedRecord clk strm f t s) =
     Value (historyOf s @
            [\<lparr>fromSemester = f, toSemester = t, migratedDate = clockDate clk,
              entryBatch = promotionBatchId strm (clockNow clk), generation = generationOf s + 1\<rparr>])"
  by (simp_all add: promotedRecord_def castOnInsert_def promoteStudent_def
        jsOrNum_hydrated_generation jsOrList_hydrated_history jsOrNum_hydrated_original)

lemma generationOf_promotedRecord:
  "generationOf (promotedRecord clk strm f t s) = generationOf s + 1"
  by (simp add: generationOf_def promotedRecord_fields)

lemma historyOf_promotedRecord:
  "historyOf (promotedRecord clk strm f t s) =
     historyOf s @ [\<lparr>fromSemester = f, toSemester = t, migratedDate = clockDate clk,
                     entryBatch = promotionBatchId strm (clockNow clk),
                     generation = generationOf s + 1\<rparr>]"
  by (simp add: historyOf_def promotedRecord_fields)




text \<open>
  C5, as the spec has it: \<open>originalSemester\<close> never changes once set. A record whose
  stored \<open>originalSemester\<close> is 0 is promoted from semester 3 with \<open>originalSemester = 3\<close>.
\<close>

theorem original_semester_counterexample:
  "originalSemester zeroOriginStudent = Value 0
   \<and> originalSemester (promotedRecord exampleClock ''BCA'' 3 4 zeroOriginStudent) = Value 3"
  by code_simp

text \<open>
  C5, amended: promotion preserves \<open>migrationGeneration = length migrationHistory\<close> (an
  absent or null field read as \<open>0\<close> and as the empty history); the promoted record's
  history is the prior history with one entry added at the end, no prior entry lost or
  changed; and \<open>originalSemester\<close> never changes once set to a non-zero number, while a
  stored 0 is replaced by the source semester.
\<close>

theorem promotion_preserves_history_invariant:
  assumes p: "p = promotedRecord clk strm f t s"
  shows "(generationOf s = length (historyOf s) \<longrightarrow> generationOf p = length (historyOf p))
       \<and> take (length (historyOf s)) (historyOf p) = historyOf s
       \<and> length (historyOf p) = length (historyOf s) + 1
       \<and> (\<forall>v. originalSemester s = Value v \<and> v \<noteq> 0 \<longrightarrow> originalSemester p = Value v)
       \<and> (originalSemester s = Value 0 \<longrightarrow> originalSemester p = Value f)"
  by (simp add: p generationOf_promotedRecord historyOf_promotedRecord promotedRecord_fields)

theorem promotion_preserves_history_invariant_witness:
  "generationOf migratedStudent = length (historyOf migratedStudent)
   \<and> originalSemester migratedStudent = Value 2
   \<and> generationOf (promotedRecord exampleClock ''BCA'' 3 4 migratedStudent) = 2
   \<and> length (historyOf (promotedRecord exampleClock ''BCA'' 3 4 migratedStudent)) = 2
   \<and> take 1 (historyOf (promotedRecord exampleClock ''BCA'' 3 4 migratedStudent))
       = historyOf migratedStudent
   \<and> originalSemester (promotedRecord exampleClock ''BCA'' 3 4 migratedStudent) = Value 2"
proof -
  have g: "generationOf migratedStudent = 1" by code_simp
  have h: "length (historyOf migratedStudent) = 1" by code_simp
  have o: "originalSemester migratedStudent = Value 2" by code_simp
  from promotion_preserves_history_invariant
         [of "promotedRecord exampleClock ''BCA'' 3 4 migratedStudent"
             exampleClock "''BCA''" 3 4 migratedStudent, OF refl]
  show ?thesis using g h o by simp
qed

section \<open>The guard around insert and delete\<close>

text \<open>
  C10. In a promotion pair whose \<open>find\<close> succeeds: when the source bucket holds no
  active student nothing is inserted or deleted, so its inactive records stay; when it
  holds an active student and insert and delete succeed, the source bucket is emptied of
  all its records, while the target receives the promoted copies of the active ones only.
\<close>

theorem source_bucket_guard:
  assumes src: "getStudentModel strm fromSem = Inr source"
    and tgt: "getStudentModel strm toSem = Inr target"
    and ne: "source \<noteq> target"
    and find: "faults (FindActive source) = None"
  shows "(filter getActiveStudentQuery (store st source) = [] \<longrightarrow>
            promotePair faults clk strm (fromSem, toSem) st = (None, st))
       \<and> (filter getActiveStudentQuery (store st source) \<noteq> [] \<and>
          faults (InsertMany target) = None \<and> faults (DeleteMany source) = None \<longrightarrow>
            fst (promotePair faults clk strm (fromSem, toSem) st) = None \<and>
            store (snd (promotePair faults clk strm (fromSem, toSem) st)) source = [] \<and>
            store (snd (promotePair faults clk strm (fromSem, toSem) st)) target =
              store st target @
              map (promotedRecord clk strm fromSem toSem)
                  (filter getActiveStudentQuery (store st source)))"
  using find ne
  by (simp add: promotePair_unfold[OF src tgt] promotedFrom_def)

theorem source_bucket_guard_witness:
  "promotePair noFaults exampleClock ''BCA'' (3, 4) (initialState dbInactive3) = (None, initialState dbInactive3)
   \<and> store (initialState dbInactive3) ''bca_sem3_students'' = [exampleStudent ''BCA013'' ''BCA'' 3 (Value False)]
   \<and> store (snd (promotePair noFaults exampleClock ''BCA'' (3, 4) (initialState dbSem3))) ''bca_sem3_students'' = []
   \<and> map studentID (store (snd (promotePair noFaults exampleClock ''BCA'' (3, 4) (initialState dbSem3)))
                       ''bca_sem4_students'') = [''BCA003'']"
proof -
  have a1: "getStudentModel ''BCA'' 3 = Inr ''bca_sem3_students''" by code_simp
  have a2: "getStudentModel ''BCA'' 4 = Inr ''bca_sem4_students''" by code_simp
  have a3: "''bca_sem3_students'' \<noteq> ''bca_sem4_students''" by simp
  have a4: "noFaults (FindActive ''bca_sem3_students'') = None" by (simp add: noFaults_def)
  have i: "filter getActiveStudentQuery (store (initialState dbInactive3) ''bca_sem3_students'') = []"
    by code_simp
  have i2: "store (initialState dbInactive3) ''bca_sem3_students'' =
              [exampleStudent ''BCA013'' ''BCA'' 3 (Value False)]"
    by code_simp
  have j: "filter getActiveStudentQuery (store (initialState dbSem3) ''bca_sem3_students'') =
             [exampleStudent ''BCA003'' ''BCA'' 3 (Value True)]"
    by code_simp
  have k: "noFaults (InsertMany ''bca_sem4_students'') = None \<and> noFaults (DeleteMany ''bca_sem3_students'') = None"
    by (simp add: noFaults_def)
  have e: "store (initialState dbSem3) ''bca_sem4_students'' = []" by code_simp
  have sid: "studentID (promotedRecord exampleClock ''BCA'' 3 4 (exampleStudent ''BCA003'' ''BCA'' 3 (Value True))) = ''BCA003''"
    by code_simp
  from source_bucket_guard[where faults = noFaults and st = "initialState dbInactive3" and clk = exampleClock, OF a1 a2 a3 a4] i
  have w1: "promotePair noFaults exampleClock ''BCA'' (3, 4) (initialState dbInactive3) =
              (None, initialState dbInactive3)" by blast
  from source_bucket_guard[where faults = noFaults and st = "initialState dbSem3" and clk = exampleClock, OF a1 a2 a3 a4] j k e sid
  have w2: "store (snd (promotePair noFaults exampleClock ''BCA'' (3, 4) (initialState dbSem3))) ''bca_sem3_students'' = []
      \<and> map studentID (store (snd (promotePair noFaults exampleClock ''BCA'' (3, 4) (initialState dbSem3)))
                       ''bca_sem4_students'') = [''BCA003'']" by simp
  from w1 i2 w2 show ?thesis by simp
qed

section \<open>The two naming functions\<close>

lemma getCollectionName_Inr:
  assumes "getCollectionName s k t = Inr n"
  shows "\<exists>c. (s, c) \<in> set STREAM_MAPPINGS \<and> k < 10 \<and> n = c @ ''_sem'' @ [digitChar k] @ ''_'' @ t"
proof -
  from assms obtain c where c: "map_of STREAM_MAPPINGS s = Some c"
    and k: "1 \<le> k" "k \<le> 8" and n: "n = c @ ''_sem'' @ showNat k @ ''_'' @ t"
    by (auto simp: getCollectionName_def split: if_splits option.splits)
  have "showNat k = [digitChar k]" using k by (simp add: showNat_digit)
  with c k n show ?thesis by (auto dest: map_of_SomeD)
qed

lemma stream_codes_apart:
  assumes "(s1, c1) \<in> set STREAM_MAPPINGS" "(s2, c2) \<in> set STREAM_MAPPINGS"
    and "c1 @ ''_sem'' @ r1 = c2 @ ''_sem'' @ r2"
  shows "s1 = s2 \<and> c1 = c2"
  using assms by (auto simp: STREAM_MAPPINGS_def)

text \<open>
  The naming function of the teacher routes gives different names to different
  (stream, semester, type) triples.
\<close>

lemma getCollectionName_inj:
  assumes a1: "getCollectionName s1 k1 t1 = Inr n" and a2: "getCollectionName s2 k2 t2 = Inr n"
  shows "s1 = s2 \<and> k1 = k2 \<and> t1 = t2"
proof -
  from getCollectionName_Inr[OF a1] obtain c1 where
    c1: "(s1, c1) \<in> set STREAM_MAPPINGS" and k1: "k1 < 10"
    and n1: "n = c1 @ ''_sem'' @ [digitChar k1] @ ''_'' @ t1" by blast
  from getCollectionName_Inr[OF a2] obtain c2 where
    c2: "(s2, c2) \<in> set STREAM_MAPPINGS" and k2: "k2 < 10"
    and n2: "n = c2 @ ''_sem'' @ [digitChar k2] @ ''_'' @ t2" by blast
  from n1 n2 have e: "c1 @ ''_sem'' @ ([digitChar k1] @ ''_'' @ t1) = c2 @ ''_sem'' @ ([digitChar k2] @ ''_'' @ t2)"
    by simp
  from stream_codes_apart[OF c1 c2 e] have s: "s1 = s2" "c1 = c2" by simp_all
  with e have "digitChar k1 = digitChar k2" "t1 = t2" by simp_all
  with digitChar_inj[OF k1 k2] s show ?thesis by simp
qed

lemma reports_getCollectionName_valid:
  assumes "s \<in> set validStreams"
  shows "\<exists>c. (s, c) \<in> set reports_streamMappings \<and>
             reports_getCollectionName s k t = c @ ''_sem'' @ showNat k @ ''_'' @ t"
  using assms
  by (auto simp: validStreams_def reports_getCollectionName_def reports_streamMappings_def)

lemma reports_codes_apart:
  assumes "(s1, c1) \<in> set reports_streamMappings" "(s2, c2) \<in> set reports_streamMappings"
    and "c1 @ ''_sem'' @ r1 = c2 @ ''_sem'' @ r2"
  shows "s1 = s2 \<and> c1 = c2"
  using assms by (auto simp: reports_streamMappings_def)

text \<open>So does the naming function of the reports router, on the recognised streams.\<close>

lemma reports_getCollectionName_inj:
  assumes v: "s1 \<in> set validStreams" "s2 \<in> set validStreams"
    and k: "1 \<le> k1" "k1 \<le> 8" "1 \<le> k2" "k2 \<le> 8"
    and e: "reports_getCollectionName s1 k1 t1 = reports_getCollectionName s2 k2 t2"
  shows "s1 = s2 \<and> k1 = k2 \<and> t1 = t2"
proof -
  from reports_getCollectionName_valid[OF v(1), of k1 t1] obtain c1 where
    c1: "(s1, c1) \<in> set reports_streamMappings"
    and n1: "reports_getCollectionName s1 k1 t1 = c1 @ ''_sem'' @ showNat k1 @ ''_'' @ t1" by blast
  from reports_getCollectionName_valid[OF v(2), of k2 t2] obtain c2 where
    c2: "(s2, c2) \<in> set reports_streamMappings"
    and n2: "reports_getCollectionName s2 k2 t2 = c2 @ ''_sem'' @ showNat k2 @ ''_'' @ t2" by blast
  have d: "showNat k1 = [digitChar k1]" "showNat k2 = [digitChar k2]"
    using k by (simp_all add: showNat_digit)
  from e n1 n2 d
  have eq: "c1 @ ''_sem'' @ ([digitChar k1] @ ''_'' @ t1) = c2 @ ''_sem'' @ ([digitChar k2] @ ''_'' @ t2)"
    by simp
  from reports_codes_apart[OF c1 c2 eq] have s: "s1 = s2" "c1 = c2" by simp_all
  with eq have "digitChar k1 = digitChar k2" "t1 = t2" by simp_all
  moreover have "k1 < 10" "k2 < 10" using k by simp_all
  ultimately show ?thesis using digitChar_inj[of k1 k2] s by simp
qed

text \<open>The two functions agree on every recognised stream but \<open>BCom-BDA\<close>.\<close>

lemma naming_functions_agree:
  assumes "s \<in> set validStreams" "s \<noteq> ''BCom-BDA''" "1 \<le> k" "k \<le> 8" "t \<noteq> []"
  shows "getCollectionName s k t = Inr (reports_getCollectionName s k t)"
  using assms
  by (auto simp: validStreams_def getCollectionName_def reports_getCollectionName_def
                 STREAM_MAPPINGS_def reports_streamMappings_def)

text \<open>
  C9. The collection name is a deterministic function of stream, semester and type, the
  same wherever the program derives it. The two routers disagree on the stream
  \<open>BCom-BDA\<close>: the teacher routes address \<open>bcom-bda_sem1_students\<close>, the reports router
  addresses \<open>bcom_bda_sem1_students\<close>.
\<close>

theorem collection_name_differs_between_routers:
  "getCollectionName ''BCom-BDA'' 1 ''students'' = Inr ''bcom-bda_sem1_students''
   \<and> reports_getCollectionName ''BCom-BDA'' 1 ''students'' = ''bcom_bda_sem1_students''
   \<and> getCollectionName ''BCom-BDA'' 1 ''students'' \<noteq> Inr (reports_getCollectionName ''BCom-BDA'' 1 ''students'')"
  by code_simp

section \<open>Each student moves one semester\<close>

lemma set_remainder: "set (remainder b) \<subseteq> set b"
  by (auto simp: remainder_def)

lemma descendingPairs_5: "descendingPairs 5 = [(5, 6), (4, 5), (3, 4), (2, 3), (1, 2)]"
  by (simp add: numeral_eq_Suc)

lemma promotionPairs_member:
  assumes "(f, t) \<in> set (promotionPairs strm)"
  shows "1 \<le> f \<and> f \<le> 5 \<and> t = Suc f \<and> (strm = ''BCom Section B'' \<longrightarrow> f = 5)"
  using assms by (auto simp: promotionPairs_def descendingPairs_5 split: if_splits)

text \<open>The target bucket of a pair after a successful run.\<close>

lemma pair_outcome:
  assumes valid: "strm \<in> set validStreams"
    and ok: "isSuccess (promotionResponse faults clk strm database)"
    and nm: "namesOf strm nm"
    and pair: "(f, t) \<in> set (promotionPairs strm)"
  shows "\<exists>keep. set keep \<subseteq> set (database (nm t)) \<and>
           databaseAfter faults clk strm database (nm t) =
             keep @ promotedFrom clk strm f t (database (nm f))"
proof -
  from promotionPairs_member[OF pair]
  have f: "1 \<le> f" "f \<le> 5" and t: "t = Suc f" and b: "strm = ''BCom Section B'' \<longrightarrow> f = 5"
    by simp_all
  let ?g6 = "if graduationFault faults (nm 6) (database (nm 6)) = None then [] else database (nm 6)"
  have g6: "set ?g6 \<subseteq> set (database (nm 6))" by simp
  show ?thesis
  proof (cases "strm = ''BCom Section B''")
    case True
    with b have f5: "f = 5" by simp
    from sectionB_outcome(2)[OF ok[unfolded True] nm[unfolded True]]
    have "databaseAfter faults clk strm database (nm 6) =
            ?g6 @ promotedFrom clk strm 5 6 (database (nm 5))" using True by simp
    with g6 show ?thesis unfolding f5 t by (intro exI[of _ ?g6]) simp
  next
    case False
    note o = full_range_outcome[OF valid False ok nm]
    show ?thesis
    proof (cases "f = 5")
      case True
      have "databaseAfter faults clk strm database (nm 6) =
            ?g6 @ promotedFrom clk strm 5 6 (database (nm 5))" by (rule o(3))
      with g6 show ?thesis unfolding True t by (intro exI[of _ ?g6]) simp
    next
      case False
      then have j: "2 \<le> Suc f" "Suc f \<le> 5" using f by simp_all
      from o(2)[OF j]
      have "databaseAfter faults clk strm database (nm (Suc f)) =
              remainder (database (nm (Suc f))) @ promotedFrom clk strm f (Suc f) (database (nm f))"
        by simp
      then show ?thesis unfolding t
        by (intro exI[of _ "remainder (database (nm (Suc f)))"]) (simp add: set_remainder)
    qed
  qed
qed

text \<open>Every bucket after a successful run, against the buckets before it.\<close>

lemma bucket_origin:
  assumes valid: "strm \<in> set validStreams"
    and ok: "isSuccess (promotionResponse faults clk strm database)"
    and nm: "namesOf strm nm"
    and k: "1 \<le> k" "k \<le> 8"
  shows "set (databaseAfter faults clk strm database (nm k)) \<subseteq>
           set (database (nm k)) \<union>
           (if 2 \<le> k then set (promotedFrom clk strm (k - 1) k (database (nm (k - 1)))) else {})"
proof -
  let ?g6 = "if graduationFault faults (nm 6) (database (nm 6)) = None then [] else database (nm 6)"
  have g6: "set ?g6 \<subseteq> set (database (nm 6))" by simp
  show ?thesis
  proof (cases "strm = ''BCom Section B''")
    case True
    note o = sectionB_outcome[OF ok[unfolded True] nm[unfolded True]]
    consider "k = 5" | "k = 6" | "k \<noteq> 5 \<and> k \<noteq> 6" by blast
    then show ?thesis
    proof cases
      case 1
      then show ?thesis using o(1) set_remainder[of "database (nm 5)"] True by auto
    next
      case 2
      then show ?thesis using o(2) g6 True by (auto split: if_splits)
    next
      case 3
      then have "nm k \<noteq> nm 5" "nm k \<noteq> nm 6"
        using namesOf_distinct[OF nm, of k 5] namesOf_distinct[OF nm, of k 6] k by simp_all
      from o(3)[OF this] show ?thesis using True by simp
    qed
  next
    case False
    note o = full_range_outcome[OF valid False ok nm]
    consider "k = 1" | "2 \<le> k \<and> k \<le> 5" | "k = 6" | "k = 7 \<or> k = 8" using k by linarith
    then show ?thesis
    proof cases
      case 1
      then show ?thesis using o(1) set_remainder[of "database (nm 1)"] by auto
    next
      case 2
      then have "databaseAfter faults clk strm database (nm k) =
             remainder (database (nm k)) @ promotedFrom clk strm (k - 1) k (database (nm (k - 1)))"
        by (intro o(2)) simp_all
      then show ?thesis using 2 set_remainder[of "database (nm k)"] by auto
    next
      case 3
      then show ?thesis using o(3) g6 by (auto split: if_splits)
    next
      case 4
      have "nm k \<notin> nm ` {1..6}"
      proof
        assume "nm k \<in> nm ` {1..6}"
        then obtain a where a: "a \<in> {1..6}" "nm k = nm a" by auto
        then show False using namesOf_distinct[OF nm, of k a] 4 by auto
      qed
      from o(4)[OF this] show ?thesis by simp
    qed
  qed
qed

text \<open>A bucket that is neither source nor target of a pair, after a successful run.\<close>

lemma unmoved_bucket:
  assumes valid: "strm \<in> set validStreams"
    and ok: "isSuccess (promotionResponse faults clk strm database)"
    and nm: "namesOf strm nm"
    and k: "1 \<le> k" "k \<le> 8"
    and ns: "k \<notin> fst ` set (promotionPairs strm)"
    and nt: "k \<notin> snd ` set (promotionPairs strm)"
  shows "databaseAfter faults clk strm database (nm k) = database (nm k)"
proof (cases "strm = ''BCom Section B''")
  case True
  from ns nt True have k56: "k \<noteq> 5" "k \<noteq> 6" by (auto simp: promotionPairs_def)
  have "nm k \<noteq> nm 5" using namesOf_distinct[OF nm, of k 5] k k56 by simp
  moreover have "nm k \<noteq> nm 6" using namesOf_distinct[OF nm, of k 6] k k56 by simp
  ultimately show ?thesis
    using sectionB_outcome(3)[OF ok[unfolded True] nm[unfolded True]] True by simp
next
  case False
  from ns nt False have k78: "k \<noteq> 1" "k \<noteq> 2" "k \<noteq> 3" "k \<noteq> 4" "k \<noteq> 5" "k \<noteq> 6"
    by (auto simp: promotionPairs_def descendingPairs_5)
  have "nm k \<notin> nm ` {1..6}"
  proof
    assume "nm k \<in> nm ` {1..6}"
    then obtain a where a: "a \<in> {1..6}" "nm k = nm a" by auto
    then have "a \<noteq> k" using k78 by auto
    then show False using namesOf_distinct[OF nm, of k a] a k by auto
  qed
  then show ?thesis by (rule full_range_outcome(4)[OF valid False ok nm])
qed

text \<open>
  C2, as the spec has it: in any run every active student of a semester \<open>k\<close> from 1 to 5
  makes exactly one hop. On \<open>BCom Section B\<close> the only pair is 5\<rightarrow>6: after a successful run
  the active student of semester 3 is still in semester 3, unchanged, and semester 4 is
  empty.
\<close>

theorem promoted_once_counterexample:
  "isSuccess (promotionResponse noFaults exampleClock ''BCom Section B'' dbSectionB)
   \<and> getActiveStudentQuery (exampleStudent ''BCB003'' ''BCOM SECTION B'' 3 (Value True))
   \<and> bucket dbSectionB ''BCom Section B'' 3 =
       [exampleStudent ''BCB003'' ''BCOM SECTION B'' 3 (Value True)]
   \<and> bucket (databaseAfter noFaults exampleClock ''BCom Section B'' dbSectionB) ''BCom Section B'' 3 =
       [exampleStudent ''BCB003'' ''BCOM SECTION B'' 3 (Value True)]
   \<and> bucket (databaseAfter noFaults exampleClock ''BCom Section B'' dbSectionB) ''BCom Section B'' 4 = []"
  by code_simp

text \<open>
  C2, amended: in a successful run no record is promoted more than once. For every pair
  \<open>(fromSem, toSem)\<close> of the stream (sources 5 down to 1 on a stream with the full range,
  source 5 alone on \<open>BCom Section B\<close>), the target bucket after the run is made of records
  it held before the run followed by the promoted copies of the students that were
  active in the source bucket before the run, each with exactly one more history entry,
  the hop \<open>fromSem \<rightarrow> toSem\<close>; no later pair reads them again. Every record of every
  bucket after the run is either a record that bucket held before the run or the copy,
  promoted once, of an active student of the semester below. A bucket that is neither
  source nor target of a pair is left as it was: its students make no hop.
\<close>

theorem promoted_exactly_once:
  assumes valid: "strm \<in> set validStreams"
    and ok: "isSuccess (promotionResponse faults clk strm database)"
    and pair: "(fromSem, toSem) \<in> set (promotionPairs strm)"
  shows "(\<exists>keep. set keep \<subseteq> set (bucket database strm toSem) \<and>
            bucket (databaseAfter faults clk strm database) strm toSem =
              keep @ map (promotedRecord clk strm fromSem toSem)
                         (filter getActiveStudentQuery (bucket database strm fromSem)))
       \<and> (\<forall>s. historyOf (promotedRecord clk strm fromSem toSem s) =
                historyOf s @ [\<lparr>fromSemester = fromSem, toSemester = toSem,
                                 migratedDate = clockDate clk,
                                 entryBatch = promotionBatchId strm (clockNow clk),
                                 generation = generationOf s + 1\<rparr>])
       \<and> (\<forall>k r. 1 \<le> k \<and> k \<le> 8 \<and> r \<in> set (bucket (databaseAfter faults clk strm database) strm k) \<longrightarrow>
              r \<in> set (bucket database strm k) \<or>
              (\<exists>s \<in> set (bucket database strm (k - 1)). getActiveStudentQuery s \<and>
                 r = promotedRecord clk strm (k - 1) k s))
       \<and> (\<forall>k. 1 \<le> k \<and> k \<le> 8 \<and> k \<notin> fst ` set (promotionPairs strm) \<and>
              k \<notin> snd ` set (promotionPairs strm) \<longrightarrow>
              bucket (databaseAfter faults clk strm database) strm k = bucket database strm k)"
proof -
  from namesOf_exists[OF valid] obtain nm where nm: "namesOf strm nm" by blast
  from promotionPairs_member[OF pair] have ft: "1 \<le> fromSem" "fromSem \<le> 8" "1 \<le> toSem" "toSem \<le> 8"
    by simp_all
  have b: "\<And>d k. 1 \<le> k \<Longrightarrow> k \<le> 8 \<Longrightarrow> bucket d strm k = d (nm k)"
    using namesOf_bucket[OF nm] by simp
  have one: "\<exists>keep. set keep \<subseteq> set (bucket database strm toSem) \<and>
            bucket (databaseAfter faults clk strm database) strm toSem =
              keep @ map (promotedRecord clk strm fromSem toSem)
                         (filter getActiveStudentQuery (bucket database strm fromSem))"
    using pair_outcome[OF valid ok nm pair] ft by (simp add: b promotedFrom_def)
  have three: "\<forall>k r. 1 \<le> k \<and> k \<le> 8 \<and> r \<in> set (bucket (databaseAfter faults clk strm database) strm k) \<longrightarrow>
              r \<in> set (bucket database strm k) \<or>
              (\<exists>s \<in> set (bucket database strm (k - 1)). getActiveStudentQuery s \<and>
                 r = promotedRecord clk strm (k - 1) k s)"
  proof (intro allI impI)
    fix k r
    assume a: "1 \<le> k \<and> k \<le> 8 \<and> r \<in> set (bucket (databaseAfter faults clk strm database) strm k)"
    then have k: "1 \<le> k" "k \<le> 8" by simp_all
    from a have "r \<in> set (bucket (databaseAfter faults clk strm database) strm k)" by simp
    then have r: "r \<in> set (databaseAfter faults clk strm database (nm k))"
      using b[OF k] by simp
    from bucket_origin[OF valid ok nm k] r
    have "r \<in> set (database (nm k)) \<or>
          (2 \<le> k \<and> r \<in> set (promotedFrom clk strm (k - 1) k (database (nm (k - 1)))))"
      by (auto split: if_splits)
    then show "r \<in> set (bucket database strm k) \<or>
              (\<exists>s \<in> set (bucket database strm (k - 1)). getActiveStudentQuery s \<and>
                 r = promotedRecord clk strm (k - 1) k s)"
    proof
      assume "r \<in> set (database (nm k))"
      then show ?thesis using b[OF k] by simp
    next
      assume c: "2 \<le> k \<and> r \<in> set (promotedFrom clk strm (k - 1) k (database (nm (k - 1))))"
      then have "1 \<le> k - 1" "k - 1 \<le> 8" using k by linarith+
      then have "bucket database strm (k - 1) = database (nm (k - 1))" by (rule b)
      with c show ?thesis by (auto simp: promotedFrom_def)
    qed
  qed
  have four: "\<forall>k. 1 \<le> k \<and> k \<le> 8 \<and> k \<notin> fst ` set (promotionPairs strm) \<and>
              k \<notin> snd ` set (promotionPairs strm) \<longrightarrow>
              bucket (databaseAfter faults clk strm database) strm k = bucket database strm k"
  proof (intro allI impI)
    fix k
    assume a: "1 \<le> k \<and> k \<le> 8 \<and> k \<notin> fst ` set (promotionPairs strm) \<and>
              k \<notin> snd ` set (promotionPairs strm)"
    then have k: "1 \<le> k" "k \<le> 8" by simp_all
    from a have "databaseAfter faults clk strm database (nm k) = database (nm k)"
      by (intro unmoved_bucket[OF valid ok nm]) simp_all
    then show "bucket (databaseAfter faults clk strm database) strm k = bucket database strm k"
      using b[OF k] by simp
  qed
  from one three four show ?thesis by (simp add: historyOf_promotedRecord)
qed

theorem promoted_exactly_once_witness:
  "isSuccess (promotionResponse noFaults exampleClock ''BCA'' dbSem4)
   \<and> (4, 5) \<in> set (promotionPairs ''BCA'')
   \<and> promotedRecord exampleClock ''BCA'' 4 5
        (exampleStudent ''BCA004'' ''BCA'' 4 (Value True))
       \<in> set (bucket (databaseAfter noFaults exampleClock ''BCA'' dbSem4) ''BCA'' 5)"
proof -
  have v: "''BCA'' \<in> set validStreams" by code_simp
  have ok: "isSuccess (promotionResponse noFaults exampleClock ''BCA'' dbSem4)" by code_simp
  have pr: "(4, 5) \<in> set (promotionPairs ''BCA'')" by code_simp
  have src: "map (promotedRecord exampleClock ''BCA'' 4 5)
                 (filter getActiveStudentQuery (bucket dbSem4 ''BCA'' 4)) =
             [promotedRecord exampleClock ''BCA'' 4 5
                (exampleStudent ''BCA004'' ''BCA'' 4 (Value True))]"
    by code_simp
  from promoted_exactly_once[OF v ok pr] src
  have "promotedRecord exampleClock ''BCA'' 4 5
          (exampleStudent ''BCA004'' ''BCA'' 4 (Value True))
        \<in> set (bucket (databaseAfter noFaults exampleClock ''BCA'' dbSem4) ''BCA'' 5)"
    by auto
  with ok pr show ?thesis by simp
qed

text \<open>
  C3, as the spec has it: with the pairs processed 5\<rightarrow>6, 4\<rightarrow>5, 3\<rightarrow>4, 2\<rightarrow>3, 1\<rightarrow>2, a
  student who starts in semester 4 ends in semester 6 with two recorded hops. The route
  refutes it: after the run the student of semester 4 is in semester 5 with the single
  hop 4\<rightarrow>5, and semester 6 is empty.
\<close>

theorem semester4_student_counterexample:
  "isSuccess (promotionResponse noFaults exampleClock ''BCA'' dbSem4)
   \<and> bucket dbSem4 ''BCA'' 4 = [exampleStudent ''BCA004'' ''BCA'' 4 (Value True)]
   \<and> bucket (databaseAfter noFaults exampleClock ''BCA'' dbSem4) ''BCA'' 6 = []
   \<and> map studentID (bucket (databaseAfter noFaults exampleClock ''BCA'' dbSem4) ''BCA'' 5) = [''BCA004'']
   \<and> map historyOf (bucket (databaseAfter noFaults exampleClock ''BCA'' dbSem4) ''BCA'' 5) =
       [[\<lparr>fromSemester = 4, toSemester = 5, migratedDate = 100,
          entryBatch = ''simple_promotion_BCA_101'', generation = 1\<rparr>]]"
  by code_simp

text \<open>
  C3, amended: on a stream with the full range, after a successful run the students that
  were active in semester 4 are in semester 5, each with exactly one more history entry,
  the hop 4\<rightarrow>5; semester 6 holds, besides records it held before, only the promoted
  copies of the students that were in semester 5.
\<close>

theorem semester4_student_one_hop:
  assumes valid: "strm \<in> set validStreams"
    and full: "strm \<noteq> ''BCom Section B''"
    and ok: "isSuccess (promotionResponse faults clk strm database)"
  shows "bucket (databaseAfter faults clk strm database) strm 5 =
           remainder (bucket database strm 5) @
           map (promotedRecord clk strm 4 5)
               (filter getActiveStudentQuery (bucket database strm 4))
       \<and> (\<forall>s. historyOf (promotedRecord clk strm 4 5 s) =
                historyOf s @ [\<lparr>fromSemester = 4, toSemester = 5, migratedDate = clockDate clk,
                                 entryBatch = promotionBatchId strm (clockNow clk),
                                 generation = generationOf s + 1\<rparr>])
       \<and> (\<exists>keep. set keep \<subseteq> set (bucket database strm 6) \<and>
            bucket (databaseAfter faults clk strm database) strm 6 =
              keep @ map (promotedRecord clk strm 5 6)
                         (filter getActiveStudentQuery (bucket database strm 5)))"
proof -
  from namesOf_exists[OF valid] obtain nm where nm: "namesOf strm nm" by blast
  have b: "\<And>d k. 1 \<le> k \<Longrightarrow> k \<le> 8 \<Longrightarrow> bucket d strm k = d (nm k)"
    using namesOf_bucket[OF nm] by simp
  have p56: "(5, 6) \<in> set (promotionPairs strm)"
    using full by (simp add: promotionPairs_def descendingPairs_5)
  from full_range_outcome(2)[OF valid full ok nm, of 5]
  have five: "bucket (databaseAfter faults clk strm database) strm 5 =
           remainder (bucket database strm 5) @
           map (promotedRecord clk strm 4 5)
               (filter getActiveStudentQuery (bucket database strm 4))"
    by (simp add: b promotedFrom_def)
  have six: "\<exists>keep. set keep \<subseteq> set (bucket database strm 6) \<and>
            bucket (databaseAfter faults clk strm database) strm 6 =
              keep @ map (promotedRecord clk strm 5 6)
                         (filter getActiveStudentQuery (bucket database strm 5))"
    using pair_outcome[OF valid ok nm p56] by (simp add: b promotedFrom_def)
  from five six show ?thesis by (simp add: historyOf_promotedRecord)
qed

theorem semester4_student_one_hop_witness:
  "isSuccess (promotionResponse noFaults exampleClock ''BCA'' dbSem4)
   \<and> bucket (databaseAfter noFaults exampleClock ''BCA'' dbSem4) ''BCA'' 5 =
       [promotedRecord exampleClock ''BCA'' 4 5
          (exampleStudent ''BCA004'' ''BCA'' 4 (Value True))]"
proof -
  have v: "''BCA'' \<in> set validStreams" by code_simp
  have f: "''BCA'' \<noteq> ''BCom Section B''" by simp
  have ok: "isSuccess (promotionResponse noFaults exampleClock ''BCA'' dbSem4)" by code_simp
  have r: "remainder (bucket dbSem4 ''BCA'' 5) = []" by code_simp
  have src: "map (promotedRecord exampleClock ''BCA'' 4 5)
                 (filter getActiveStudentQuery (bucket dbSem4 ''BCA'' 4)) =
             [promotedRecord exampleClock ''BCA'' 4 5
                (exampleStudent ''BCA004'' ''BCA'' 4 (Value True))]"
    by code_simp
  from semester4_student_one_hop[OF v f ok] r src ok show ?thesis by simp
qed

section \<open>The stream limited to semesters 5 and 6\<close>

text \<open>
  C7, as the spec has it: on \<open>BCom Section B\<close> a run moves the semester-5 students to
  semester 6 and leaves semester 5 empty. A semester 5 that holds only an inactive student
  is not emptied: the run succeeds and the record is still there.
\<close>

theorem constrained_stream_counterexample:
  "isSuccess (promotionResponse noFaults exampleClock ''BCom Section B'' dbSectionBInactive)
   \<and> consoleErrors noFaults exampleClock ''BCom Section B'' dbSectionBInactive = []
   \<and> bucket (databaseAfter noFaults exampleClock ''BCom Section B'' dbSectionBInactive)
        ''BCom Section B'' 5 = [exampleStudent ''BCB015'' ''BCOM SECTION B'' 5 (Value False)]
   \<and> bucket (databaseAfter noFaults exampleClock ''BCom Section B'' dbSectionBInactive)
        ''BCom Section B'' 6 = []"
  by code_simp

text \<open>
  C7, amended: on \<open>BCom Section B\<close>, a successful run whose graduation step did not fail
  (nothing was written to the error log) deletes the students that were in semester 6 and
  reports them as graduated, puts into semester 6 the promoted copies of the students
  that were active in semester 5, leaves semester 5 empty when it held an active student
  (and as it was when it held none), and leaves semesters 1 to 4 unchanged.
\<close>

theorem constrained_stream_promotion:
  assumes ok: "isSuccess (promotionResponse faults clk ''BCom Section B'' database)"
    and nolog: "consoleErrors faults clk ''BCom Section B'' database = []"
  shows "bucket (databaseAfter faults clk ''BCom Section B'' database) ''BCom Section B'' 6 =
           map (promotedRecord clk ''BCom Section B'' 5 6)
               (filter getActiveStudentQuery (bucket database ''BCom Section B'' 5))
       \<and> reportedGraduated (promotionResponse faults clk ''BCom Section B'' database) =
           length (bucket database ''BCom Section B'' 6)
       \<and> bucket (databaseAfter faults clk ''BCom Section B'' database) ''BCom Section B'' 5 =
           (if filter getActiveStudentQuery (bucket database ''BCom Section B'' 5) = []
            then bucket database ''BCom Section B'' 5 else [])
       \<and> (\<forall>k. 1 \<le> k \<and> k \<le> 4 \<longrightarrow>
             bucket (databaseAfter faults clk ''BCom Section B'' database) ''BCom Section B'' k =
             bucket database ''BCom Section B'' k)"
proof -
  let ?B = "''BCom Section B''"
  from namesOf_exists[OF sectionB_valid] obtain nm where nm: "namesOf ?B nm" by blast
  have b: "\<And>d k. 1 \<le> k \<Longrightarrow> k \<le> 8 \<Longrightarrow> bucket d ?B k = d (nm k)"
    using namesOf_bucket[OF nm] by simp
  note o = sectionB_outcome[OF ok nm]
  have g: "graduationFault faults (nm 6) (database (nm 6)) = None"
    using o(6) nolog by (cases "graduationFault faults (nm 6) (database (nm 6))") simp_all
  have six: "bucket (databaseAfter faults clk ?B database) ?B 6 =
           map (promotedRecord clk ?B 5 6)
               (filter getActiveStudentQuery (bucket database ?B 5))"
    using o(2) g by (simp add: b promotedFrom_def)
  have grad: "reportedGraduated (promotionResponse faults clk ?B database) = length (bucket database ?B 6)"
    using o(4) g by (simp add: b)
  have five: "bucket (databaseAfter faults clk ?B database) ?B 5 =
           (if filter getActiveStudentQuery (bucket database ?B 5) = []
            then bucket database ?B 5 else [])"
    using o(1) by (simp add: b remainder_def)
  have low: "\<forall>k. 1 \<le> k \<and> k \<le> 4 \<longrightarrow>
             bucket (databaseAfter faults clk ?B database) ?B k = bucket database ?B k"
  proof (intro allI impI)
    fix k :: nat
    assume k: "1 \<le> k \<and> k \<le> 4"
    then have k8: "1 \<le> k" "k \<le> 8" by simp_all
    have "nm k \<noteq> nm 5" using namesOf_distinct[OF nm, of k 5] k by simp
    moreover have "nm k \<noteq> nm 6" using namesOf_distinct[OF nm, of k 6] k by simp
    ultimately have "databaseAfter faults clk ?B database (nm k) = database (nm k)" by (rule o(3))
    then show "bucket (databaseAfter faults clk ?B database) ?B k = bucket database ?B k"
      using b[OF k8] by simp
  qed
  from six grad five low show ?thesis by simp
qed

theorem constrained_stream_promotion_witness:
  "isSuccess (promotionResponse noFaults exampleClock ''BCom Section B'' dbSectionB)
   \<and> consoleErrors noFaults exampleClock ''BCom Section B'' dbSectionB = []
   \<and> map studentID (bucket (databaseAfter noFaults exampleClock ''BCom Section B'' dbSectionB)
                       ''BCom Section B'' 6) = [''BCB005'']
   \<and> reportedGraduated (promotionResponse noFaults exampleClock ''BCom Section B'' dbSectionB) = 1
   \<and> bucket (databaseAfter noFaults exampleClock ''BCom Section B'' dbSectionB) ''BCom Section B'' 5 = []
   \<and> bucket (databaseAfter noFaults exampleClock ''BCom Section B'' dbSectionB) ''BCom Section B'' 3 =
       [exampleStudent ''BCB003'' ''BCOM SECTION B'' 3 (Value True)]"
proof -
  have ok: "isSuccess (promotionResponse noFaults exampleClock ''BCom Section B'' dbSectionB)"
    by code_simp
  have nl: "consoleErrors noFaults exampleClock ''BCom Section B'' dbSectionB = []" by code_simp
  have a5: "filter getActiveStudentQuery (bucket dbSectionB ''BCom Section B'' 5) =
              [exampleStudent ''BCB005'' ''BCOM SECTION B'' 5 (Value True)]" by code_simp
  have sid: "studentID (promotedRecord exampleClock ''BCom Section B'' 5 6
                 (exampleStudent ''BCB005'' ''BCOM SECTION B'' 5 (Value True))) = ''BCB005''"
    by code_simp
  have b6: "length (bucket dbSectionB ''BCom Section B'' 6) = 1" by code_simp
  have b3: "bucket dbSectionB ''BCom Section B'' 3 =
              [exampleStudent ''BCB003'' ''BCOM SECTION B'' 3 (Value True)]" by code_simp
  note t = constrained_stream_promotion[OF ok nl]
  from t have t3: "bucket (databaseAfter noFaults exampleClock ''BCom Section B'' dbSectionB)
                     ''BCom Section B'' 3 = bucket dbSectionB ''BCom Section B'' 3" by simp
  from t a5 sid b6 b3 t3 ok nl show ?thesis by simp
qed

section \<open>Counting the records of a stream\<close>

lemma length_split:
  "length (remainder b) + length (filter getActiveStudentQuery b) + droppedBy b = length b"
proof (cases "filter getActiveStudentQuery b = []")
  case True
  then show ?thesis by (simp add: remainder_def droppedBy_def)
next
  case False
  then show ?thesis
    using sum_length_filter_compl[of getActiveStudentQuery b]
    by (simp add: remainder_def droppedBy_def)
qed

lemma length_promotedFrom:
  "length (promotedFrom clk strm f t b) = length (filter getActiveStudentQuery b)"
  by (simp add: promotedFrom_def)

lemma semesters_1_to_8: "[1..<9] = [1, 2, 3, 4, 5, 6, 7, 8 :: nat]"
  by code_simp

lemma totalRecords_names:
  assumes nm: "namesOf strm nm"
  shows "totalRecords d strm =
           length (d (nm 1)) + length (d (nm 2)) + length (d (nm 3)) + length (d (nm 4)) +
           length (d (nm 5)) + length (d (nm 6)) + length (d (nm 7)) + length (d (nm 8))"
proof -
  have b: "\<And>k. 1 \<le> k \<Longrightarrow> k \<le> 8 \<Longrightarrow> bucket d strm k = d (nm k)"
    using namesOf_bucket[OF nm] by simp
  have "bucket d strm 1 = d (nm 1)" "bucket d strm 2 = d (nm 2)" "bucket d strm 3 = d (nm 3)"
       "bucket d strm 4 = d (nm 4)" "bucket d strm 5 = d (nm 5)" "bucket d strm 6 = d (nm 6)"
       "bucket d strm 7 = d (nm 7)" "bucket d strm 8 = d (nm 8)"
    by (rule b, simp, simp)+
  then show ?thesis
    unfolding totalRecords_def semesters_1_to_8 by simp
qed

lemma count_full_range:
  assumes valid: "strm \<in> set validStreams"
    and full: "strm \<noteq> ''BCom Section B''"
    and ok: "isSuccess (promotionResponse faults clk strm database)"
    and nm: "namesOf strm nm"
  shows "totalRecords (databaseAfter faults clk strm database) strm +
           reportedGraduated (promotionResponse faults clk strm database) +
           (droppedBy (database (nm 5)) + droppedBy (database (nm 4)) + droppedBy (database (nm 3)) +
            droppedBy (database (nm 2)) + droppedBy (database (nm 1))) =
         totalRecords database strm"
proof -
  note o = full_range_outcome[OF valid full ok nm]
  let ?A = "databaseAfter faults clk strm database"
  have a1: "length (?A (nm 1)) = length (remainder (database (nm 1)))" using o(1) by simp
  have a2: "length (?A (nm 2)) = length (remainder (database (nm 2))) +
              length (filter getActiveStudentQuery (database (nm 1)))"
    using o(2)[of 2] by (simp add: length_promotedFrom)
  have a3: "length (?A (nm 3)) = length (remainder (database (nm 3))) +
              length (filter getActiveStudentQuery (database (nm 2)))"
    using o(2)[of 3] by (simp add: length_promotedFrom)
  have a4: "length (?A (nm 4)) = length (remainder (database (nm 4))) +
              length (filter getActiveStudentQuery (database (nm 3)))"
    using o(2)[of 4] by (simp add: length_promotedFrom)
  have a5: "length (?A (nm 5)) = length (remainder (database (nm 5))) +
              length (filter getActiveStudentQuery (database (nm 4)))"
    using o(2)[of 5] by (simp add: length_promotedFrom)
  have a6: "length (?A (nm 6)) + reportedGraduated (promotionResponse faults clk strm database) =
              length (database (nm 6)) + length (filter getActiveStudentQuery (database (nm 5)))"
    by (simp add: o(3) o(5) length_promotedFrom)
  have out: "\<And>k. k = 7 \<or> k = 8 \<Longrightarrow> ?A (nm k) = database (nm k)"
  proof -
    fix k :: nat assume k: "k = 7 \<or> k = 8"
    have "nm k \<notin> nm ` {1..6}"
    proof
      assume "nm k \<in> nm ` {1..6}"
      then obtain a where a: "a \<in> {1..6}" "nm k = nm a" by auto
      then show False using namesOf_distinct[OF nm, of k a] k by auto
    qed
    then show "?A (nm k) = database (nm k)" by (rule o(4))
  qed
  have a7: "length (?A (nm 7)) = length (database (nm 7))" using out[of 7] by simp
  have a8: "length (?A (nm 8)) = length (database (nm 8))" using out[of 8] by simp
  note s = length_split[of "database (nm 1)"] length_split[of "database (nm 2)"]
           length_split[of "database (nm 3)"] length_split[of "database (nm 4)"]
           length_split[of "database (nm 5)"]
  show ?thesis
    unfolding totalRecords_names[OF nm]
    using a1 a2 a3 a4 a5 a6 a7 a8 s by linarith
qed

lemma count_sectionB:
  assumes ok: "isSuccess (promotionResponse faults clk ''BCom Section B'' database)"
    and nm: "namesOf ''BCom Section B'' nm"
  shows "totalRecords (databaseAfter faults clk ''BCom Section B'' database) ''BCom Section B'' +
           reportedGraduated (promotionResponse faults clk ''BCom Section B'' database) +
           droppedBy (database (nm 5)) =
         totalRecords database ''BCom Section B''"
proof -
  note o = sectionB_outcome[OF ok nm]
  let ?A = "databaseAfter faults clk ''BCom Section B'' database"
  have a5: "length (?A (nm 5)) = length (remainder (database (nm 5)))" by (simp add: o(1))
  have a6: "length (?A (nm 6)) +
              reportedGraduated (promotionResponse faults clk ''BCom Section B'' database) =
              length (database (nm 6)) + length (filter getActiveStudentQuery (database (nm 5)))"
    by (simp add: o(2) o(4) length_promotedFrom)
  have out: "\<And>k. 1 \<le> k \<Longrightarrow> k \<le> 8 \<Longrightarrow> k \<noteq> 5 \<Longrightarrow> k \<noteq> 6 \<Longrightarrow> ?A (nm k) = database (nm k)"
  proof -
    fix k :: nat assume k: "1 \<le> k" "k \<le> 8" "k \<noteq> 5" "k \<noteq> 6"
    have "nm k \<noteq> nm 5" using namesOf_distinct[OF nm, of k 5] k by simp
    moreover have "nm k \<noteq> nm 6" using namesOf_distinct[OF nm, of k 6] k by simp
    ultimately show "?A (nm k) = database (nm k)" by (rule o(3))
  qed
  have r: "length (?A (nm 1)) = length (database (nm 1))" "length (?A (nm 2)) = length (database (nm 2))"
          "length (?A (nm 3)) = length (database (nm 3))" "length (?A (nm 4)) = length (database (nm 4))"
          "length (?A (nm 7)) = length (database (nm 7))" "length (?A (nm 8)) = length (database (nm 8))"
    using out[of 1] out[of 2] out[of 3] out[of 4] out[of 7] out[of 8] by simp_all
  show ?thesis
    unfolding totalRecords_names[OF nm]
    using a5 a6 r length_split[of "database (nm 5)"] by linarith
qed

lemma all_active_counts:
  assumes "\<forall>k s. 1 \<le> k \<and> k \<le> 8 \<and> s \<in> set (bucket database strm k) \<longrightarrow> getActiveStudentQuery s"
  shows "totalActive database strm = totalRecords database strm"
    and "\<And>k. 1 \<le> k \<Longrightarrow> k \<le> 8 \<Longrightarrow> droppedBy (bucket database strm k) = 0"
proof -
  have f: "\<And>k. 1 \<le> k \<Longrightarrow> k \<le> 8 \<Longrightarrow>
             filter getActiveStudentQuery (bucket database strm k) = bucket database strm k"
    using assms by (intro filter_True) blast
  have "map (\<lambda>sem. length (filter getActiveStudentQuery (bucket database strm sem))) [1..<9] =
        map (\<lambda>sem. length (bucket database strm sem)) [1..<9]"
    by (rule map_cong) (auto simp: f)
  then show "totalActive database strm = totalRecords database strm"
    unfolding totalActive_def totalRecords_def by (rule arg_cong)
  show "\<And>k. 1 \<le> k \<Longrightarrow> k \<le> 8 \<Longrightarrow> droppedBy (bucket database strm k) = 0"
  proof -
    fix k :: nat assume k: "1 \<le> k" "k \<le> 8"
    have "\<forall>s \<in> set (bucket database strm k). getActiveStudentQuery s" using assms k by blast
    then have "filter (\<lambda>s. \<not> getActiveStudentQuery s) (bucket database strm k) = []"
      by (simp add: filter_empty_conv)
    then show "droppedBy (bucket database strm k) = 0" by (simp add: droppedBy_def)
  qed
qed

text \<open>
  C8, as the spec has it: after a successful run the stream holds as many records as it
  had active students before the run, minus the graduated ones. A stream whose only
  record is an inactive student of semester 1 refutes it: the run succeeds, graduates
  nobody, and the record is still there, although no student was active.
\<close>

theorem record_count_counterexample:
  "isSuccess (promotionResponse noFaults exampleClock ''BCA'' dbInactive1)
   \<and> totalRecords (databaseAfter noFaults exampleClock ''BCA'' dbInactive1) ''BCA'' = 1
   \<and> totalActive dbInactive1 ''BCA'' = 0
   \<and> reportedGraduated (promotionResponse noFaults exampleClock ''BCA'' dbInactive1) = 0
   \<and> totalRecords (databaseAfter noFaults exampleClock ''BCA'' dbInactive1) ''BCA'' \<noteq>
       totalActive dbInactive1 ''BCA'' -
       reportedGraduated (promotionResponse noFaults exampleClock ''BCA'' dbInactive1)"
  by code_simp

text \<open>
  C8, amended: after a successful run, the records of the stream after the run, the
  graduated records and the inactive records that were deleted with a source bucket
  holding an active student add up to the records of the stream before the run. When
  every record of the stream was active before the run, the number of records after the
  run is the number of active students before the run minus the graduated count.
\<close>

theorem record_count_after_promotion:
  assumes valid: "strm \<in> set validStreams"
    and ok: "isSuccess (promotionResponse faults clk strm database)"
  shows "totalRecords (databaseAfter faults clk strm database) strm +
           reportedGraduated (promotionResponse faults clk strm database) +
           sum_list (map (\<lambda>pair. droppedBy (bucket database strm (fst pair))) (promotionPairs strm)) =
         totalRecords database strm
       \<and> ((\<forall>k s. 1 \<le> k \<and> k \<le> 8 \<and> s \<in> set (bucket database strm k) \<longrightarrow> getActiveStudentQuery s) \<longrightarrow>
            totalRecords (databaseAfter faults clk strm database) strm +
              reportedGraduated (promotionResponse faults clk strm database) =
            totalActive database strm)"
proof -
  from namesOf_exists[OF valid] obtain nm where nm: "namesOf strm nm" by blast
  have b: "\<And>k. 1 \<le> k \<Longrightarrow> k \<le> 8 \<Longrightarrow> bucket database strm k = database (nm k)"
    using namesOf_bucket[OF nm] by simp
  have b5: "bucket database strm 1 = database (nm 1)" "bucket database strm 2 = database (nm 2)"
           "bucket database strm 3 = database (nm 3)" "bucket database strm 4 = database (nm 4)"
           "bucket database strm 5 = database (nm 5)"
    by (rule b, simp, simp)+
  have total: "totalRecords (databaseAfter faults clk strm database) strm +
           reportedGraduated (promotionResponse faults clk strm database) +
           sum_list (map (\<lambda>pair. droppedBy (bucket database strm (fst pair))) (promotionPairs strm)) =
         totalRecords database strm"
  proof (cases "strm = ''BCom Section B''")
    case True
    have "sum_list (map (\<lambda>pair. droppedBy (bucket database strm (fst pair))) (promotionPairs strm)) =
            droppedBy (database (nm 5))"
      using True b5(5) by (simp add: promotionPairs_def)
    then show ?thesis
      using count_sectionB[OF ok[unfolded True] nm[unfolded True]] True by simp
  next
    case False
    have "sum_list (map (\<lambda>pair. droppedBy (bucket database strm (fst pair))) (promotionPairs strm)) =
            droppedBy (database (nm 5)) + droppedBy (database (nm 4)) + droppedBy (database (nm 3)) +
            droppedBy (database (nm 2)) + droppedBy (database (nm 1))"
      using False b5 by (simp add: promotionPairs_def descendingPairs_5)
    then show ?thesis using count_full_range[OF valid False ok nm] by simp
  qed
  have active: "(\<forall>k s. 1 \<le> k \<and> k \<le> 8 \<and> s \<in> set (bucket database strm k) \<longrightarrow> getActiveStudentQuery s) \<longrightarrow>
            totalRecords (databaseAfter faults clk strm database) strm +
              reportedGraduated (promotionResponse faults clk strm database) =
            totalActive database strm"
  proof
    assume a: "\<forall>k s. 1 \<le> k \<and> k \<le> 8 \<and> s \<in> set (bucket database strm k) \<longrightarrow> getActiveStudentQuery s"
    note c = all_active_counts[OF a]
    have "\<forall>pair \<in> set (promotionPairs strm). droppedBy (bucket database strm (fst pair)) = 0"
    proof
      fix pair assume "pair \<in> set (promotionPairs strm)"
      then have "(fst pair, snd pair) \<in> set (promotionPairs strm)" by simp
      from promotionPairs_member[OF this] have "1 \<le> fst pair" "fst pair \<le> 8" by simp_all
      then show "droppedBy (bucket database strm (fst pair)) = 0" by (rule c(2))
    qed
    then have "sum_list (map (\<lambda>pair. droppedBy (bucket database strm (fst pair))) (promotionPairs strm)) = 0"
      by (simp add: sum_list_eq_0_iff)
    with total c(1) show "totalRecords (databaseAfter faults clk strm database) strm +
              reportedGraduated (promotionResponse faults clk strm database) =
            totalActive database strm" by simp
  qed
  from total active show ?thesis by (rule conjI)
qed

theorem record_count_after_promotion_witness:
  "isSuccess (promotionResponse noFaults exampleClock ''BCA'' dbMixed)
   \<and> totalRecords dbMixed ''BCA'' = 4
   \<and> reportedGraduated (promotionResponse noFaults exampleClock ''BCA'' dbMixed) = 1
   \<and> totalRecords (databaseAfter noFaults exampleClock ''BCA'' dbMixed) ''BCA'' = 2"
proof -
  have v: "''BCA'' \<in> set validStreams" by code_simp
  have ok: "isSuccess (promotionResponse noFaults exampleClock ''BCA'' dbMixed)" by code_simp
  have t: "totalRecords dbMixed ''BCA'' = 4" by code_simp
  have g: "reportedGraduated (promotionResponse noFaults exampleClock ''BCA'' dbMixed) = 1" by code_simp
  have d: "sum_list (map (\<lambda>pair. droppedBy (bucket dbMixed ''BCA'' (fst pair))) (promotionPairs ''BCA'')) = 1"
    by code_simp
  from record_count_after_promotion[OF v ok] t g d
  have "totalRecords (databaseAfter noFaults exampleClock ''BCA'' dbMixed) ''BCA'' = 2" by simp
  with ok t g show ?thesis by simp
qed

section \<open>Failures\<close>

lemma promotePair_no_fault:
  assumes src: "getStudentModel strm f = Inr src"
    and tgt: "getStudentModel strm t = Inr tgt"
    and nf: "faults (FindActive src) = None" "faults (InsertMany tgt) = None"
            "faults (DeleteMany src) = None"
  shows "fst (promotePair faults clk strm (f, t) st) = None"
  by (simp add: promotePair_unfold[OF src tgt] nf)

lemma runPairs_no_fault:
  assumes "\<forall>pair \<in> set ps. \<exists>src tgt.
             getStudentModel strm (fst pair) = Inr src \<and> getStudentModel strm (snd pair) = Inr tgt \<and>
             faults (FindActive src) = None \<and> faults (InsertMany tgt) = None \<and>
             faults (DeleteMany src) = None"
  shows "fst (runPairs faults clk strm ps st) = None"
  using assms
proof (induction ps arbitrary: st)
  case Nil
  then show ?case by simp
next
  case (Cons pair ps)
  from Cons.prems obtain src tgt where
    m: "getStudentModel strm (fst pair) = Inr src" "getStudentModel strm (snd pair) = Inr tgt"
    and nf: "faults (FindActive src) = None" "faults (InsertMany tgt) = None"
            "faults (DeleteMany src) = None"
    by auto
  have "fst (promotePair faults clk strm (fst pair, snd pair) st) = None"
    by (rule promotePair_no_fault[OF m nf])
  then obtain st1 where p: "promotePair faults clk strm pair st = (None, st1)"
    by (cases "promotePair faults clk strm pair st") simp
  have "fst (runPairs faults clk strm ps st1) = None"
    using Cons.prems by (intro Cons.IH) simp
  with p show ?case by simp
qed

lemma promotionPairs_models:
  assumes valid: "strm \<in> set validStreams" and nm: "namesOf strm nm"
  shows "\<forall>pair \<in> set (promotionPairs strm).
           1 \<le> fst pair \<and> fst pair \<le> 5 \<and> snd pair = Suc (fst pair) \<and>
           getStudentModel strm (fst pair) = Inr (nm (fst pair)) \<and>
           getStudentModel strm (snd pair) = Inr (nm (snd pair))"
proof
  fix pair assume "pair \<in> set (promotionPairs strm)"
  then have "(fst pair, snd pair) \<in> set (promotionPairs strm)" by simp
  from promotionPairs_member[OF this]
  have f: "1 \<le> fst pair" "fst pair \<le> 5" "snd pair = Suc (fst pair)" by simp_all
  then have "getStudentModel strm (fst pair) = Inr (nm (fst pair))"
    by (intro namesOf_model[OF nm]) simp_all
  moreover have "getStudentModel strm (snd pair) = Inr (nm (snd pair))"
    using f by (intro namesOf_model[OF nm]) simp_all
  ultimately show "1 \<le> fst pair \<and> fst pair \<le> 5 \<and> snd pair = Suc (fst pair) \<and>
           getStudentModel strm (fst pair) = Inr (nm (fst pair)) \<and>
           getStudentModel strm (snd pair) = Inr (nm (snd pair))"
    using f by simp
qed


lemma promotePair_fst:
  assumes src: "getStudentModel strm f = Inr src"
    and tgt: "getStudentModel strm t = Inr tgt"
  shows "fst (promotePair faults clk strm (f, t) st) = pairFault faults src tgt (store st src)"
  by (simp add: promotePair_unfold[OF src tgt] pairFault_def failPair_def split: option.splits)

lemma promotePair_log:
  assumes src: "getStudentModel strm f = Inr src"
    and tgt: "getStudentModel strm t = Inr tgt"
  shows "errorLog (snd (promotePair faults clk strm (f, t) st)) =
           (case fst (promotePair faults clk strm (f, t) st) of
              None \<Rightarrow> errorLog st
            | Some e \<Rightarrow> errorLog st @ [PromotionError f t e])"
  by (simp add: promotePair_unfold[OF src tgt] failPair_def split: option.splits)

text \<open>
  A failed loop over the descending pairs: the pair that threw is the first one, in the
  order of the loop, with a rejected call; its line is the only one the loop logs.
\<close>

lemma runPairs_descending_failure:
  assumes run: "runPairs faults clk strm (descendingPairs n) st = (Some e, st')"
    and nm: "\<forall>k. 1 \<le> k \<and> k \<le> Suc n \<longrightarrow> getStudentModel strm k = Inr (nm k)"
    and inj: "inj_on nm {1..Suc n}"
  shows "\<exists>k. 1 \<le> k \<and> k \<le> n \<and>
           pairFault faults (nm k) (nm (Suc k)) (store st (nm k)) = Some e \<and>
           errorLog st' = errorLog st @ [PromotionError k (Suc k) e] \<and>
           (\<forall>j. k < j \<and> j \<le> n \<longrightarrow> pairFault faults (nm j) (nm (Suc j)) (store st (nm j)) = None)"
  using run nm inj
proof (induction n arbitrary: st)
  case 0
  then show ?case by simp
next
  case (Suc n)
  let ?src = "nm (Suc n)" and ?tgt = "nm (Suc (Suc n))"
  have src: "getStudentModel strm (Suc n) = Inr ?src" using Suc.prems(2) by simp
  have tgt: "getStudentModel strm (Suc (Suc n)) = Inr ?tgt" using Suc.prems(2) by simp
  have diff: "\<And>a b. a \<in> {1..Suc (Suc n)} \<Longrightarrow> b \<in> {1..Suc (Suc n)} \<Longrightarrow> a \<noteq> b \<Longrightarrow> nm a \<noteq> nm b"
    using Suc.prems(3) by (auto dest: inj_onD)
  have ne: "?src \<noteq> ?tgt" by (rule diff) auto
  obtain r st1 where p: "promotePair faults clk strm (Suc n, Suc (Suc n)) st = (r, st1)"
    by (cases "promotePair faults clk strm (Suc n, Suc (Suc n)) st") simp
  have pf: "pairFault faults ?src ?tgt (store st ?src) = r"
    using promotePair_fst[OF src tgt, of faults clk st] p by simp
  have pl: "errorLog st1 = (case r of None \<Rightarrow> errorLog st | Some e \<Rightarrow> errorLog st @ [PromotionError (Suc n) (Suc (Suc n)) e])"
    using promotePair_log[OF src tgt, of faults clk st] p by simp
  show ?case
  proof (cases r)
    case (Some e')
    with p Suc.prems(1) have e: "e' = e" "st1 = st'" by simp_all
    have "1 \<le> Suc n \<and> Suc n \<le> Suc n \<and>
           pairFault faults (nm (Suc n)) (nm (Suc (Suc n))) (store st (nm (Suc n))) = Some e \<and>
           errorLog st' = errorLog st @ [PromotionError (Suc n) (Suc (Suc n)) e] \<and>
           (\<forall>j. Suc n < j \<and> j \<le> Suc n \<longrightarrow>
                pairFault faults (nm j) (nm (Suc j)) (store st (nm j)) = None)"
      using pf pl Some e by auto
    then show ?thesis by (rule exI[of _ "Suc n"])
  next
    case None
    with p Suc.prems(1) have r1: "runPairs faults clk strm (descendingPairs n) st1 = (Some e, st')"
      by simp
    from p None have p1: "promotePair faults clk strm (Suc n, Suc (Suc n)) st = (None, st1)" by simp
    note s1 = promotePair_success[OF src tgt ne p1]
    have nm': "\<forall>k. 1 \<le> k \<and> k \<le> Suc n \<longrightarrow> getStudentModel strm k = Inr (nm k)"
      using Suc.prems(2) by simp
    have inj': "inj_on nm {1..Suc n}"
      using Suc.prems(3) by (rule inj_on_subset) auto
    from Suc.IH[OF r1 nm' inj'] obtain k where
      k: "1 \<le> k" "k \<le> n"
      and kf: "pairFault faults (nm k) (nm (Suc k)) (store st1 (nm k)) = Some e"
      and kl: "errorLog st' = errorLog st1 @ [PromotionError k (Suc k) e]"
      and kn: "\<forall>j. k < j \<and> j \<le> n \<longrightarrow> pairFault faults (nm j) (nm (Suc j)) (store st1 (nm j)) = None"
      by blast
    have low: "\<And>j. 1 \<le> j \<Longrightarrow> j \<le> n \<Longrightarrow> store st1 (nm j) = store st (nm j)"
    proof -
      fix j assume j: "1 \<le> j" "j \<le> n"
      have "nm j \<noteq> ?src" using j by (intro diff) auto
      moreover have "nm j \<noteq> ?tgt" using j by (intro diff) auto
      ultimately show "store st1 (nm j) = store st (nm j)" by (simp add: s1(1))
    qed
    have a: "pairFault faults (nm k) (nm (Suc k)) (store st (nm k)) = Some e"
      using kf low[OF k] by simp
    have b: "errorLog st' = errorLog st @ [PromotionError k (Suc k) e]"
      using kl s1(4) by simp
    have c: "\<forall>j. k < j \<and> j \<le> Suc n \<longrightarrow> pairFault faults (nm j) (nm (Suc j)) (store st (nm j)) = None"
    proof (intro allI impI)
      fix j assume j: "k < j \<and> j \<le> Suc n"
      show "pairFault faults (nm j) (nm (Suc j)) (store st (nm j)) = None"
      proof (cases "j = Suc n")
        case True
        then show ?thesis using pf None by simp
      next
        case False
        then have jn: "k < j \<and> j \<le> n" using j by simp
        then have "1 \<le> j" "j \<le> n" using k by simp_all
        then have eq: "store st1 (nm j) = store st (nm j)" by (rule low)
        from kn jn have "pairFault faults (nm j) (nm (Suc j)) (store st1 (nm j)) = None" by blast
        then show ?thesis unfolding eq .
      qed
    qed
    have "1 \<le> k \<and> k \<le> Suc n \<and>
           pairFault faults (nm k) (nm (Suc k)) (store st (nm k)) = Some e \<and>
           errorLog st' = errorLog st @ [PromotionError k (Suc k) e] \<and>
           (\<forall>j. k < j \<and> j \<le> Suc n \<longrightarrow>
                pairFault faults (nm j) (nm (Suc j)) (store st (nm j)) = None)"
      using k a b c by simp
    then show ?thesis by (rule exI[of _ k])
  qed
qed

lemma runPairs_success_log:
  assumes "\<forall>pair \<in> set ps. \<exists>src tgt.
             getStudentModel strm (fst pair) = Inr src \<and> getStudentModel strm (snd pair) = Inr tgt"
    and "runPairs faults clk strm ps st = (None, st')"
  shows "errorLog st' = errorLog st"
  using assms
proof (induction ps arbitrary: st)
  case Nil
  then show ?case by simp
next
  case (Cons pair ps)
  from Cons.prems(1) obtain src tgt where
    m: "getStudentModel strm (fst pair) = Inr src" "getStudentModel strm (snd pair) = Inr tgt"
    by auto
  obtain r st1 where p: "promotePair faults clk strm pair st = (r, st1)"
    by (cases "promotePair faults clk strm pair st") simp
  with Cons.prems(2) have r: "r = None" and run: "runPairs faults clk strm ps st1 = (None, st')"
    by (auto split: option.splits)
  have "errorLog st1 = errorLog st"
    using promotePair_log[OF m, of faults clk st] p r by simp
  moreover have "errorLog st' = errorLog st1"
    using Cons.prems(1) run by (intro Cons.IH) simp_all
  ultimately show ?case by simp
qed

lemma sum_1_to_5: "(\<Sum>k = 1..5. F k) = F 5 + F 4 + F 3 + F 2 + F (1::nat)" for F :: "nat \<Rightarrow> nat"
proof -
  have "{1..5::nat} = {1, 2, 3, 4, 5}" by auto
  then have "(\<Sum>k = 1..5. F k) = (\<Sum>k \<in> {1, 2, 3, 4, 5}. F k)" by (rule arg_cong)
  also have "\<dots> = F 5 + F 4 + F 3 + F 2 + F 1" by simp
  finally show ?thesis .
qed

lemma transactionBody_committed:
  "committed (snd (transactionBody faults clk strm st)) = committed st"
  by (simp add: transactionBody_unfold runPairs_committed graduationStep_committed)

text \<open>A failed transaction body on a recognised stream, against the database before the call.\<close>

lemma transactionBody_failure:
  assumes valid: "strm \<in> set validStreams"
    and nm: "namesOf strm nm"
    and run: "transactionBody faults clk strm (initialState database) = (Some e, st)"
  shows "\<exists>f. (f, Suc f) \<in> set (promotionPairs strm) \<and> 1 \<le> f \<and> f \<le> 5 \<and>
           pairFault faults (nm f) (nm (Suc f)) (database (nm f)) = Some e \<and>
           errorLog st =
             errorLog (graduationStep faults clk strm (initialState database)) @
             [PromotionError f (Suc f) e] \<and>
           (\<forall>j. f < j \<and> j \<le> 5 \<longrightarrow>
                pairFault faults (nm j) (nm (Suc j)) (database (nm j)) = None)"
proof -
  let ?g = "graduationStep faults clk strm (initialState database)"
  have m6: "getStudentModel strm 6 = Inr (nm 6)" using nm by (simp add: namesOf_def)
  note ge = graduationStep_effect[OF m6, of faults clk "initialState database"]
  have low: "\<And>k. 1 \<le> k \<Longrightarrow> k \<le> 5 \<Longrightarrow> store ?g (nm k) = database (nm k)"
  proof -
    fix k :: nat assume k: "1 \<le> k" "k \<le> 5"
    then have "nm k \<noteq> nm 6" using namesOf_distinct[OF nm, of k 6] by simp
    then show "store ?g (nm k) = database (nm k)" by (simp add: ge(1))
  qed
  show ?thesis
  proof (cases "strm = ''BCom Section B''")
    case True
    have m5: "getStudentModel strm 5 = Inr (nm 5)" using nm by (simp add: namesOf_def)
    from run True have "runPairs faults clk strm [(5, 6)] ?g = (Some e, st)"
      by (simp add: transactionBody_unfold promotionPairs_def)
    then have p: "promotePair faults clk strm (5, 6) ?g = (Some e, st)"
      by (auto split: prod.splits option.splits)
    have "pairFault faults (nm 5) (nm 6) (store ?g (nm 5)) = Some e"
      using promotePair_fst[OF m5 m6, of faults clk ?g] p by simp
    then have a: "pairFault faults (nm 5) (nm (Suc 5)) (database (nm 5)) = Some e"
      using low[of 5] by simp
    have b: "errorLog st = errorLog ?g @ [PromotionError 5 (Suc 5) e]"
      using promotePair_log[OF m5 m6, of faults clk ?g] p by simp
    have "(5, Suc 5) \<in> set (promotionPairs strm) \<and> 1 \<le> (5::nat) \<and> (5::nat) \<le> 5 \<and>
           pairFault faults (nm 5) (nm (Suc 5)) (database (nm 5)) = Some e \<and>
           errorLog st = errorLog ?g @ [PromotionError 5 (Suc 5) e] \<and>
           (\<forall>j. 5 < j \<and> j \<le> 5 \<longrightarrow>
                pairFault faults (nm j) (nm (Suc j)) (database (nm j)) = None)"
      using a b True by (auto simp: promotionPairs_def)
    then show ?thesis by (rule exI[of _ 5])
  next
    case False
    from run have r: "runPairs faults clk strm (descendingPairs 5) ?g = (Some e, st)"
      by (simp add: transactionBody_unfold promotionPairs_full[OF False])
    have nm5: "\<forall>k. 1 \<le> k \<and> k \<le> Suc 5 \<longrightarrow> getStudentModel strm k = Inr (nm k)"
      using nm by (simp add: namesOf_def)
    have inj5: "inj_on nm {1..Suc 5}"
      using nm unfolding namesOf_def by (auto intro: inj_on_subset)
    from runPairs_descending_failure[OF r nm5 inj5] obtain k where
      k: "1 \<le> k" "k \<le> 5"
      and kf: "pairFault faults (nm k) (nm (Suc k)) (store ?g (nm k)) = Some e"
      and kl: "errorLog st = errorLog ?g @ [PromotionError k (Suc k) e]"
      and kn: "\<forall>j. k < j \<and> j \<le> 5 \<longrightarrow>
                 pairFault faults (nm j) (nm (Suc j)) (store ?g (nm j)) = None"
      by blast
    have "(k, Suc k) \<in> set (promotionPairs strm)"
      using k False by (auto simp: promotionPairs_def descendingPairs_5)
    moreover have "pairFault faults (nm k) (nm (Suc k)) (database (nm k)) = Some e"
      using kf low[OF k] by simp
    moreover have "\<forall>j. k < j \<and> j \<le> 5 \<longrightarrow>
                 pairFault faults (nm j) (nm (Suc j)) (database (nm j)) = None"
    proof (intro allI impI)
      fix j assume j: "k < j \<and> j \<le> 5"
      then have "1 \<le> j" "j \<le> 5" using k by simp_all
      then have eq: "store ?g (nm j) = database (nm j)" by (rule low)
      from kn j have "pairFault faults (nm j) (nm (Suc j)) (store ?g (nm j)) = None" by blast
      then show "pairFault faults (nm j) (nm (Suc j)) (database (nm j)) = None" unfolding eq .
    qed
    ultimately have "(k, Suc k) \<in> set (promotionPairs strm) \<and> 1 \<le> k \<and> k \<le> 5 \<and>
           pairFault faults (nm k) (nm (Suc k)) (database (nm k)) = Some e \<and>
           errorLog st = errorLog ?g @ [PromotionError k (Suc k) e] \<and>
           (\<forall>j. k < j \<and> j \<le> 5 \<longrightarrow>
                pairFault faults (nm j) (nm (Suc j)) (database (nm j)) = None)"
      using k kl by simp
    then show ?thesis by (rule exI[of _ k])
  qed
qed

text \<open>What the handler returns when the run does not end with a report.\<close>

lemma simplePromotion_failure:
  assumes valid: "strm \<in> set validStreams"
    and nok: "\<not> isSuccess (promotionResponse faults clk strm database)"
  shows "\<exists>e. promotionResponse faults clk strm database = errorAnswer clk e \<and>
             databaseAfter faults clk strm database = database \<and>
             ((faults StartSession = Some e \<and>
               consoleErrors faults clk strm database = [UnhandledApplicationError e]) \<or>
              (\<exists>st. transactionBody faults clk strm (initialState database) = (None, st) \<and>
                    faults CommitTransaction = Some e \<and>
                    consoleErrors faults clk strm database =
                      errorLog st @ [UnhandledApplicationError e]) \<or>
              (\<exists>st. transactionBody faults clk strm (initialState database) = (Some e, st) \<and>
                    consoleErrors faults clk strm database =
                      errorLog st @ [UnhandledApplicationError e]))"
proof -
  obtain r st where tb: "transactionBody faults clk strm (initialState database) = (r, st)"
    by (cases "transactionBody faults clk strm (initialState database)") simp
  have c: "committed st = database"
    using transactionBody_committed[of faults clk strm "initialState database"] tb by simp
  show ?thesis
  proof (cases "faults StartSession")
    case (Some e)
    then show ?thesis
      using valid validStreams_nonempty[OF valid]
      by (intro exI[of _ e])
         (simp add: promotionResponse_def databaseAfter_def consoleErrors_def simplePromotion_def
                    errorMiddleware_def)
  next
    case None
    show ?thesis
    proof (cases r)
      case (Some e)
      with None tb c show ?thesis
        using valid validStreams_nonempty[OF valid]
        by (intro exI[of _ e])
           (simp add: promotionResponse_def databaseAfter_def consoleErrors_def simplePromotion_def
                      withTransaction_initial errorMiddleware_def)
    next
      case rNone: None
      show ?thesis
      proof (cases "faults CommitTransaction")
        case (Some e)
        with None rNone tb c show ?thesis
          using valid validStreams_nonempty[OF valid]
          by (intro exI[of _ e])
             (simp add: promotionResponse_def databaseAfter_def consoleErrors_def simplePromotion_def
                        withTransaction_initial errorMiddleware_def)
      next
        case cNone: None
        with None rNone tb have "isSuccess (promotionResponse faults clk strm database)"
          using valid validStreams_nonempty[OF valid]
          by (simp add: promotionResponse_def simplePromotion_def withTransaction_initial)
        with nok show ?thesis by simp
      qed
    qed
  qed
qed

text \<open>
  C6. When the graduation step fails, the failure is logged and nothing else changes:
  the graduated count stays \<open>0\<close>, the terminal bucket keeps its records, and the promotion
  pairs run on that state. A run that then ends with a report shows \<open>totalGraduated = 0\<close>
  and has promoted, for every pair of the stream, the active students of the source
  bucket into the target bucket (the terminal bucket holding its old records followed by
  the students promoted from semester 5), with \<open>totalPromoted\<close> counting them. And when no
  other database call is rejected the run does end with a report.
\<close>

theorem graduation_failure_isolated:
  assumes valid: "strm \<in> set validStreams"
    and m6: "getStudentModel strm 6 = Inr coll"
    and gf: "graduationFault faults coll (database coll) = Some e"
  shows "graduationStep faults clk strm (initialState database) =
           (initialState database)\<lparr>errorLog := [GraduationError e]\<rparr>
       \<and> transactionBody faults clk strm (initialState database) =
           runPairs faults clk strm (promotionPairs strm)
             ((initialState database)\<lparr>errorLog := [GraduationError e]\<rparr>)
       \<and> (isSuccess (promotionResponse faults clk strm database) \<longrightarrow>
            reportedGraduated (promotionResponse faults clk strm database) = 0 \<and>
            consoleErrors faults clk strm database = [GraduationError e] \<and>
            (\<forall>pair \<in> set (promotionPairs strm).
               bucket (databaseAfter faults clk strm database) strm (snd pair) =
                 (if snd pair = 6 then bucket database strm 6
                  else remainder (bucket database strm (snd pair))) @
                 promotedFrom clk strm (fst pair) (snd pair) (bucket database strm (fst pair))) \<and>
            reportedPromoted (promotionResponse faults clk strm database) =
              sum_list (map (\<lambda>pair. length (filter getActiveStudentQuery
                                                 (bucket database strm (fst pair))))
                            (promotionPairs strm)))
       \<and> ((\<forall>op. op \<noteq> CountDocuments coll \<and> op \<noteq> FindAll coll \<and> op \<noteq> DeleteMany coll \<longrightarrow>
                faults op = None) \<longrightarrow>
            isSuccess (promotionResponse faults clk strm database))"
proof -
  from namesOf_exists[OF valid] obtain nm where nm: "namesOf strm nm" by blast
  have c: "coll = nm 6" using m6 namesOf_model[OF nm, of 6] by simp
  have gf': "graduationFault faults (nm 6) (database (nm 6)) = Some e" using gf c by simp
  have bk: "\<And>d k. 1 \<le> k \<Longrightarrow> k \<le> 6 \<Longrightarrow> bucket d strm k = d (nm k)"
    using namesOf_bucket[OF nm] by simp
  let ?st1 = "(initialState database)\<lparr>errorLog := [GraduationError e]\<rparr>"
  have g: "graduationStep faults clk strm (initialState database) = ?st1"
    using gf by (simp add: graduationStep_unfold[OF m6] logGraduationError_def)
  have tb: "transactionBody faults clk strm (initialState database) =
              runPairs faults clk strm (promotionPairs strm) ?st1"
    by (simp add: transactionBody_unfold g)
  have rep: "isSuccess (promotionResponse faults clk strm database) \<longrightarrow>
            reportedGraduated (promotionResponse faults clk strm database) = 0 \<and>
            consoleErrors faults clk strm database = [GraduationError e] \<and>
            (\<forall>pair \<in> set (promotionPairs strm).
               bucket (databaseAfter faults clk strm database) strm (snd pair) =
                 (if snd pair = 6 then bucket database strm 6
                  else remainder (bucket database strm (snd pair))) @
                 promotedFrom clk strm (fst pair) (snd pair) (bucket database strm (fst pair))) \<and>
            reportedPromoted (promotionResponse faults clk strm database) =
              sum_list (map (\<lambda>pair. length (filter getActiveStudentQuery
                                                 (bucket database strm (fst pair))))
                            (promotionPairs strm))"
  proof
    assume ok: "isSuccess (promotionResponse faults clk strm database)"
    let ?after = "databaseAfter faults clk strm database"
    have six: "?after (nm 6) = database (nm 6) @ promotedFrom clk strm 5 6 (database (nm 5))"
    proof (cases "strm = ''BCom Section B''")
      case True
      from sectionB_outcome(2)[OF ok[unfolded True] nm[unfolded True]] gf' True
      show ?thesis by simp
    next
      case False
      from full_range_outcome(3)[OF valid False ok nm] gf' show ?thesis by simp
    qed
    have a: "reportedGraduated (promotionResponse faults clk strm database) = 0 \<and>
             consoleErrors faults clk strm database = [GraduationError e]"
    proof (cases "strm = ''BCom Section B''")
      case True
      note o = sectionB_outcome[OF ok[unfolded True] nm[unfolded True]]
      from o(4) o(6) gf' True show ?thesis by simp
    next
      case False
      note o = full_range_outcome[OF valid False ok nm]
      from o(5) o(7) gf' show ?thesis by simp
    qed
    have b: "\<forall>pair \<in> set (promotionPairs strm).
               bucket ?after strm (snd pair) =
                 (if snd pair = 6 then bucket database strm 6
                  else remainder (bucket database strm (snd pair))) @
                 promotedFrom clk strm (fst pair) (snd pair) (bucket database strm (fst pair))"
    proof
      fix pair assume p: "pair \<in> set (promotionPairs strm)"
      then have "(fst pair, snd pair) \<in> set (promotionPairs strm)" by simp
      from promotionPairs_member[OF this]
      have f: "1 \<le> fst pair" "fst pair \<le> 5" and t: "snd pair = Suc (fst pair)"
        and sb: "strm = ''BCom Section B'' \<longrightarrow> fst pair = 5" by simp_all
      have bf: "bucket database strm (fst pair) = database (nm (fst pair))"
        using f by (intro bk) simp_all
      have bt: "bucket database strm (snd pair) = database (nm (snd pair))"
        using f t by (intro bk) simp_all
      have bt': "bucket ?after strm (snd pair) = ?after (nm (snd pair))"
        using f t by (intro bk) simp_all
      show "bucket ?after strm (snd pair) =
                 (if snd pair = 6 then bucket database strm 6
                  else remainder (bucket database strm (snd pair))) @
                 promotedFrom clk strm (fst pair) (snd pair) (bucket database strm (fst pair))"
      proof (cases "fst pair = 5")
        case True
        then have t6: "snd pair = 6" using t by simp
        show ?thesis unfolding bt' bf unfolding t6 True using six bk[of 6 database] by simp
      next
        case False
        with sb have full: "strm \<noteq> ''BCom Section B''" by blast
        from False f t have j: "2 \<le> snd pair" "snd pair \<le> 5" by simp_all
        from full_range_outcome(2)[OF valid full ok nm j] t
        have "?after (nm (snd pair)) =
                remainder (database (nm (snd pair))) @
                promotedFrom clk strm (fst pair) (snd pair) (database (nm (fst pair)))"
          by simp
        moreover have "snd pair \<noteq> 6" using j by simp
        ultimately show ?thesis unfolding bt' bf bt by simp
      qed
    qed
    have d: "reportedPromoted (promotionResponse faults clk strm database) =
              sum_list (map (\<lambda>pair. length (filter getActiveStudentQuery
                                                 (bucket database strm (fst pair))))
                            (promotionPairs strm))"
    proof (cases "strm = ''BCom Section B''")
      case True
      from sectionB_outcome(5)[OF ok[unfolded True] nm[unfolded True]] True
      show ?thesis using bk[of 5 database] by (simp add: promotionPairs_def)
    next
      case False
      let ?F = "\<lambda>k. length (filter getActiveStudentQuery (database (nm k)))"
      have "reportedPromoted (promotionResponse faults clk strm database) = (\<Sum>k = 1..5. ?F k)"
        by (rule full_range_outcome(6)[OF valid False ok nm])
      also have "\<dots> = ?F 5 + ?F 4 + ?F 3 + ?F 2 + ?F 1" by (rule sum_1_to_5)
      also have "\<dots> = sum_list (map (\<lambda>pair. length (filter getActiveStudentQuery
                                                 (bucket database strm (fst pair))))
                            (promotionPairs strm))"
        unfolding promotionPairs_full[OF False] descendingPairs_5
        using bk[of 1 database] bk[of 2 database] bk[of 3 database] bk[of 4 database]
              bk[of 5 database]
        by simp
      finally show ?thesis .
    qed
    from a b d show "reportedGraduated (promotionResponse faults clk strm database) = 0 \<and>
            consoleErrors faults clk strm database = [GraduationError e] \<and>
            (\<forall>pair \<in> set (promotionPairs strm).
               bucket ?after strm (snd pair) =
                 (if snd pair = 6 then bucket database strm 6
                  else remainder (bucket database strm (snd pair))) @
                 promotedFrom clk strm (fst pair) (snd pair) (bucket database strm (fst pair))) \<and>
            reportedPromoted (promotionResponse faults clk strm database) =
              sum_list (map (\<lambda>pair. length (filter getActiveStudentQuery
                                                 (bucket database strm (fst pair))))
                            (promotionPairs strm))"
      by blast
  qed
  have rest: "(\<forall>op. op \<noteq> CountDocuments coll \<and> op \<noteq> FindAll coll \<and> op \<noteq> DeleteMany coll \<longrightarrow>
                faults op = None) \<longrightarrow>
            isSuccess (promotionResponse faults clk strm database)"
  proof
    assume nf: "\<forall>op. op \<noteq> CountDocuments coll \<and> op \<noteq> FindAll coll \<and> op \<noteq> DeleteMany coll \<longrightarrow>
                faults op = None"
    have "\<forall>pair \<in> set (promotionPairs strm). \<exists>src tgt.
             getStudentModel strm (fst pair) = Inr src \<and> getStudentModel strm (snd pair) = Inr tgt \<and>
             faults (FindActive src) = None \<and> faults (InsertMany tgt) = None \<and>
             faults (DeleteMany src) = None"
    proof
      fix pair assume p: "pair \<in> set (promotionPairs strm)"
      with promotionPairs_models[OF valid nm]
      have f: "1 \<le> fst pair" "fst pair \<le> 5"
        and ms: "getStudentModel strm (fst pair) = Inr (nm (fst pair))"
        and mt: "getStudentModel strm (snd pair) = Inr (nm (snd pair))" by blast+
      have "nm (fst pair) \<noteq> nm 6" using namesOf_distinct[OF nm, of "fst pair" 6] f by simp
      then have "faults (DeleteMany (nm (fst pair))) = None" using nf c by simp
      moreover have "faults (FindActive (nm (fst pair))) = None" using nf by simp
      moreover have "faults (InsertMany (nm (snd pair))) = None" using nf by simp
      ultimately show "\<exists>src tgt.
             getStudentModel strm (fst pair) = Inr src \<and> getStudentModel strm (snd pair) = Inr tgt \<and>
             faults (FindActive src) = None \<and> faults (InsertMany tgt) = None \<and>
             faults (DeleteMany src) = None"
        using ms mt by blast
    qed
    then have "fst (runPairs faults clk strm (promotionPairs strm) ?st1) = None"
      by (rule runPairs_no_fault)
    then obtain st where "transactionBody faults clk strm (initialState database) = (None, st)"
      unfolding tb by (cases "runPairs faults clk strm (promotionPairs strm) ?st1") simp
    moreover have "faults StartSession = None" "faults CommitTransaction = None" using nf by simp_all
    ultimately show "isSuccess (promotionResponse faults clk strm database)"
      using valid validStreams_nonempty[OF valid]
      by (simp add: promotionResponse_def simplePromotion_def withTransaction_initial)
  qed
  from g tb rep rest show ?thesis by blast
qed

theorem graduation_failure_isolated_witness:
  "graduationFault faultsAtGraduation ''bca_sem6_students'' (dbGraduating ''bca_sem6_students'') =
     Some (StoreError ''connection closed'')
   \<and> isSuccess (promotionResponse faultsAtGraduation exampleClock ''BCA'' dbGraduating)
   \<and> reportedGraduated (promotionResponse faultsAtGraduation exampleClock ''BCA'' dbGraduating) = 0
   \<and> reportedPromoted (promotionResponse faultsAtGraduation exampleClock ''BCA'' dbGraduating) = 1
   \<and> consoleErrors faultsAtGraduation exampleClock ''BCA'' dbGraduating =
       [GraduationError (StoreError ''connection closed'')]
   \<and> (5, 6) \<in> set (promotionPairs ''BCA'')
   \<and> bucket (databaseAfter faultsAtGraduation exampleClock ''BCA'' dbGraduating) ''BCA'' 6 =
       [exampleStudent ''BCA061'' ''BCA'' 6 (Value True),
        exampleStudent ''BCA062'' ''BCA'' 6 (Value True),
        promotedRecord exampleClock ''BCA'' 5 6 (exampleStudent ''BCA005'' ''BCA'' 5 (Value True))]
   \<and> map semester (bucket (databaseAfter faultsAtGraduation exampleClock ''BCA'' dbGraduating) ''BCA'' 6) =
       [6, 6, 6]"
proof -
  have v: "''BCA'' \<in> set validStreams" by code_simp
  have m: "getStudentModel ''BCA'' 6 = Inr ''bca_sem6_students''" by code_simp
  have g: "graduationFault faultsAtGraduation ''bca_sem6_students'' (dbGraduating ''bca_sem6_students'') =
             Some (StoreError ''connection closed'')" by code_simp
  have nf: "\<forall>op. op \<noteq> CountDocuments ''bca_sem6_students'' \<and> op \<noteq> FindAll ''bca_sem6_students'' \<and>
                 op \<noteq> DeleteMany ''bca_sem6_students'' \<longrightarrow> faultsAtGraduation op = None"
    by (simp add: faultsAtGraduation_def noFaults_def)
  have p: "(5, 6) \<in> set (promotionPairs ''BCA'')" by code_simp
  note t = graduation_failure_isolated[where faults = faultsAtGraduation and database = dbGraduating
         and clk = exampleClock, OF v m g]
  from t nf have ok: "isSuccess (promotionResponse faultsAtGraduation exampleClock ''BCA'' dbGraduating)"
    by blast
  from t ok have r: "reportedGraduated (promotionResponse faultsAtGraduation exampleClock ''BCA'' dbGraduating) = 0"
    "consoleErrors faultsAtGraduation exampleClock ''BCA'' dbGraduating =
       [GraduationError (StoreError ''connection closed'')]"
    by blast+
  from t ok have "reportedPromoted (promotionResponse faultsAtGraduation exampleClock ''BCA'' dbGraduating) =
      sum_list (map (\<lambda>pair. length (filter getActiveStudentQuery
                                         (bucket dbGraduating ''BCA'' (fst pair))))
                    (promotionPairs ''BCA''))"
    by blast
  moreover have "sum_list (map (\<lambda>pair. length (filter getActiveStudentQuery
                                         (bucket dbGraduating ''BCA'' (fst pair))))
                    (promotionPairs ''BCA'')) = 1"
    by code_simp
  ultimately have rp: "reportedPromoted (promotionResponse faultsAtGraduation exampleClock ''BCA'' dbGraduating) = 1"
    by simp
  from t ok have "\<forall>pair \<in> set (promotionPairs ''BCA'').
       bucket (databaseAfter faultsAtGraduation exampleClock ''BCA'' dbGraduating) ''BCA'' (snd pair) =
         (if snd pair = 6 then bucket dbGraduating ''BCA'' 6
          else remainder (bucket dbGraduating ''BCA'' (snd pair))) @
         promotedFrom exampleClock ''BCA'' (fst pair) (snd pair) (bucket dbGraduating ''BCA'' (fst pair))"
    by blast
  from bspec[OF this p]
  have b6: "bucket (databaseAfter faultsAtGraduation exampleClock ''BCA'' dbGraduating) ''BCA'' 6 =
         bucket dbGraduating ''BCA'' 6 @
         promotedFrom exampleClock ''BCA'' 5 6 (bucket dbGraduating ''BCA'' 5)"
    by simp
  have e6: "bucket dbGraduating ''BCA'' 6 @
         promotedFrom exampleClock ''BCA'' 5 6 (bucket dbGraduating ''BCA'' 5) =
       [exampleStudent ''BCA061'' ''BCA'' 6 (Value True),
        exampleStudent ''BCA062'' ''BCA'' 6 (Value True),
        promotedRecord exampleClock ''BCA'' 5 6 (exampleStudent ''BCA005'' ''BCA'' 5 (Value True))]"
    by code_simp
  have s6: "map semester
       [exampleStudent ''BCA061'' ''BCA'' 6 (Value True),
        exampleStudent ''BCA062'' ''BCA'' 6 (Value True),
        promotedRecord exampleClock ''BCA'' 5 6 (exampleStudent ''BCA005'' ''BCA'' 5 (Value True))] =
       [6, 6, 6]"
    by code_simp
  from g ok r rp p b6 e6 s6 show ?thesis by simp
qed

text \<open>
  C1, as the spec has it: when a pair's insert or delete fails, the error the caller
  receives identifies the failing pair. The route throws the database's error again
  unchanged and the error middleware answers with that error's message, so two runs that
  fail in different pairs with the same database error give the caller the same
  response; only the console line written by the pair's \<open>catch\<close> block names the pair.
\<close>

theorem failing_pair_counterexample:
  "promotionResponse faultsAtInsert4 exampleClock ''BCA'' dbTwoSources =
     ErrorResponse 500 ''connection closed'' 103
   \<and> consoleErrors faultsAtInsert4 exampleClock ''BCA'' dbTwoSources =
       [PromotionError 3 4 (StoreError ''connection closed''),
        UnhandledApplicationError (StoreError ''connection closed'')]
   \<and> promotionResponse faultsAtInsert3 exampleClock ''BCA'' dbTwoSources =
       ErrorResponse 500 ''connection closed'' 103
   \<and> consoleErrors faultsAtInsert3 exampleClock ''BCA'' dbTwoSources =
       [PromotionError 2 3 (StoreError ''connection closed''),
        UnhandledApplicationError (StoreError ''connection closed'')]"
  by code_simp

text \<open>
  C1, amended: a run on a recognised stream that does not end with a report leaves the
  whole database, so every student bucket of the stream, as it was before the call, and
  the caller receives the error middleware's answer to the error the database raised:
  its message with status 500, or the fixed answer to a validation or a cast error. When
  the error was raised inside a promotion pair, that pair is the first one, in the order
  of the loop, with a rejected call; the console holds the line of the graduation step if
  that step failed, then the line naming this pair with the error, then the middleware's
  line. And whenever the insert or the delete of a pair whose source bucket holds an
  active student is rejected, the run ends that way.
\<close>

theorem promotion_failure_rolls_back:
  assumes valid: "strm \<in> set validStreams"
  shows "(\<not> isSuccess (promotionResponse faults clk strm database) \<longrightarrow>
            databaseAfter faults clk strm database = database \<and>
            (\<forall>k. bucket (databaseAfter faults clk strm database) strm k = bucket database strm k) \<and>
            (\<exists>e. promotionResponse faults clk strm database = errorAnswer clk e \<and>
                 ((faults StartSession = Some e \<and>
                   consoleErrors faults clk strm database = [UnhandledApplicationError e]) \<or>
                  (faults CommitTransaction = Some e \<and>
                   consoleErrors faults clk strm database =
                     errorLog (graduationStep faults clk strm (initialState database)) @
                     [UnhandledApplicationError e]) \<or>
                  (\<exists>f t source target.
                     (f, t) \<in> set (promotionPairs strm) \<and>
                     getStudentModel strm f = Inr source \<and> getStudentModel strm t = Inr target \<and>
                     pairFault faults source target (database source) = Some e \<and>
                     (\<forall>j source' target'.
                        (j, Suc j) \<in> set (promotionPairs strm) \<and> f < j \<and>
                        getStudentModel strm j = Inr source' \<and>
                        getStudentModel strm (Suc j) = Inr target' \<longrightarrow>
                        pairFault faults source' target' (database source') = None) \<and>
                     consoleErrors faults clk strm database =
                       errorLog (graduationStep faults clk strm (initialState database)) @
                       [PromotionError f t e, UnhandledApplicationError e]))))
       \<and> (\<forall>c6. getStudentModel strm 6 = Inr c6 \<longrightarrow>
             errorLog (graduationStep faults clk strm (initialState database)) =
               (case graduationFault faults c6 (database c6) of
                  None \<Rightarrow> [] | Some e \<Rightarrow> [GraduationError e]))
       \<and> (\<forall>f t source target.
             (f, t) \<in> set (promotionPairs strm) \<and>
             getStudentModel strm f = Inr source \<and> getStudentModel strm t = Inr target \<and>
             filter getActiveStudentQuery (database source) \<noteq> [] \<and>
             (faults (InsertMany target) \<noteq> None \<or> faults (DeleteMany source) \<noteq> None) \<longrightarrow>
             \<not> isSuccess (promotionResponse faults clk strm database))"
proof -
  from namesOf_exists[OF valid] obtain nm where nm: "namesOf strm nm" by blast
  let ?G = "graduationStep faults clk strm (initialState database)"
  have models: "\<forall>pair \<in> set (promotionPairs strm). \<exists>src tgt.
             getStudentModel strm (fst pair) = Inr src \<and> getStudentModel strm (snd pair) = Inr tgt"
    using promotionPairs_models[OF valid nm] by blast
  have first: "\<not> isSuccess (promotionResponse faults clk strm database) \<longrightarrow>
            databaseAfter faults clk strm database = database \<and>
            (\<forall>k. bucket (databaseAfter faults clk strm database) strm k = bucket database strm k) \<and>
            (\<exists>e. promotionResponse faults clk strm database = errorAnswer clk e \<and>
                 ((faults StartSession = Some e \<and>
                   consoleErrors faults clk strm database = [UnhandledApplicationError e]) \<or>
                  (faults CommitTransaction = Some e \<and>
                   consoleErrors faults clk strm database =
                     errorLog ?G @ [UnhandledApplicationError e]) \<or>
                  (\<exists>f t source target.
                     (f, t) \<in> set (promotionPairs strm) \<and>
                     getStudentModel strm f = Inr source \<and> getStudentModel strm t = Inr target \<and>
                     pairFault faults source target (database source) = Some e \<and>
                     (\<forall>j source' target'.
                        (j, Suc j) \<in> set (promotionPairs strm) \<and> f < j \<and>
                        getStudentModel strm j = Inr source' \<and>
                        getStudentModel strm (Suc j) = Inr target' \<longrightarrow>
                        pairFault faults source' target' (database source') = None) \<and>
                     consoleErrors faults clk strm database =
                       errorLog ?G @ [PromotionError f t e, UnhandledApplicationError e])))"
  proof
    assume nok: "\<not> isSuccess (promotionResponse faults clk strm database)"
    from simplePromotion_failure[OF valid nok] obtain e where
      r: "promotionResponse faults clk strm database = errorAnswer clk e"
      and d: "databaseAfter faults clk strm database = database"
      and c: "(faults StartSession = Some e \<and>
               consoleErrors faults clk strm database = [UnhandledApplicationError e]) \<or>
              (\<exists>st. transactionBody faults clk strm (initialState database) = (None, st) \<and>
                    faults CommitTransaction = Some e \<and>
                    consoleErrors faults clk strm database =
                      errorLog st @ [UnhandledApplicationError e]) \<or>
              (\<exists>st. transactionBody faults clk strm (initialState database) = (Some e, st) \<and>
                    consoleErrors faults clk strm database =
                      errorLog st @ [UnhandledApplicationError e])"
      by blast
    have cases: "(faults StartSession = Some e \<and>
                   consoleErrors faults clk strm database = [UnhandledApplicationError e]) \<or>
                  (faults CommitTransaction = Some e \<and>
                   consoleErrors faults clk strm database =
                     errorLog ?G @ [UnhandledApplicationError e]) \<or>
                  (\<exists>f t source target.
                     (f, t) \<in> set (promotionPairs strm) \<and>
                     getStudentModel strm f = Inr source \<and> getStudentModel strm t = Inr target \<and>
                     pairFault faults source target (database source) = Some e \<and>
                     (\<forall>j source' target'.
                        (j, Suc j) \<in> set (promotionPairs strm) \<and> f < j \<and>
                        getStudentModel strm j = Inr source' \<and>
                        getStudentModel strm (Suc j) = Inr target' \<longrightarrow>
                        pairFault faults source' target' (database source') = None) \<and>
                     consoleErrors faults clk strm database =
                       errorLog ?G @ [PromotionError f t e, UnhandledApplicationError e])"
    proof -
      from c consider
        (start) "faults StartSession = Some e"
                "consoleErrors faults clk strm database = [UnhandledApplicationError e]"
      | (commit) st where "transactionBody faults clk strm (initialState database) = (None, st)"
                "faults CommitTransaction = Some e"
                "consoleErrors faults clk strm database = errorLog st @ [UnhandledApplicationError e]"
      | (body) st where "transactionBody faults clk strm (initialState database) = (Some e, st)"
                "consoleErrors faults clk strm database = errorLog st @ [UnhandledApplicationError e]"
        by blast
      then show ?thesis
      proof cases
        case start
        then show ?thesis by blast
      next
        case commit
        from commit(1) have "runPairs faults clk strm (promotionPairs strm) ?G = (None, st)"
          by (simp add: transactionBody_unfold)
        from runPairs_success_log[OF models this] have "errorLog st = errorLog ?G" .
        with commit show ?thesis by simp
      next
        case body
        from transactionBody_failure[OF valid nm body(1)] obtain f where
          p: "(f, Suc f) \<in> set (promotionPairs strm)" and f: "1 \<le> f" "f \<le> 5"
          and pf: "pairFault faults (nm f) (nm (Suc f)) (database (nm f)) = Some e"
          and lg: "errorLog st = errorLog ?G @ [PromotionError f (Suc f) e]"
          and fr: "\<forall>j. f < j \<and> j \<le> 5 \<longrightarrow>
                     pairFault faults (nm j) (nm (Suc j)) (database (nm j)) = None"
          by blast
        have ms: "getStudentModel strm f = Inr (nm f)"
          using f by (intro namesOf_model[OF nm]) simp_all
        have mt: "getStudentModel strm (Suc f) = Inr (nm (Suc f))"
          using f by (intro namesOf_model[OF nm]) simp_all
        have fr': "\<forall>j source' target'.
                        (j, Suc j) \<in> set (promotionPairs strm) \<and> f < j \<and>
                        getStudentModel strm j = Inr source' \<and>
                        getStudentModel strm (Suc j) = Inr target' \<longrightarrow>
                        pairFault faults source' target' (database source') = None"
        proof (intro allI impI)
          fix j source' target'
          assume a: "(j, Suc j) \<in> set (promotionPairs strm) \<and> f < j \<and>
                        getStudentModel strm j = Inr source' \<and>
                        getStudentModel strm (Suc j) = Inr target'"
          then have "(j, Suc j) \<in> set (promotionPairs strm)" by simp
          from promotionPairs_member[OF this] have j: "1 \<le> j" "j \<le> 5" by simp_all
          have "getStudentModel strm j = Inr (nm j)"
            using j by (intro namesOf_model[OF nm]) simp_all
          with a have s: "source' = nm j" by simp
          have "getStudentModel strm (Suc j) = Inr (nm (Suc j))"
            using j by (intro namesOf_model[OF nm]) simp_all
          with a have t: "target' = nm (Suc j)" by simp
          from fr a j have "pairFault faults (nm j) (nm (Suc j)) (database (nm j)) = None" by blast
          then show "pairFault faults source' target' (database source') = None"
            unfolding s t .
        qed
        have lg': "consoleErrors faults clk strm database =
                     errorLog ?G @ [PromotionError f (Suc f) e, UnhandledApplicationError e]"
          using body(2) lg by simp
        have "(f, Suc f) \<in> set (promotionPairs strm) \<and>
                     getStudentModel strm f = Inr (nm f) \<and>
                     getStudentModel strm (Suc f) = Inr (nm (Suc f)) \<and>
                     pairFault faults (nm f) (nm (Suc f)) (database (nm f)) = Some e \<and>
                     (\<forall>j source' target'.
                        (j, Suc j) \<in> set (promotionPairs strm) \<and> f < j \<and>
                        getStudentModel strm j = Inr source' \<and>
                        getStudentModel strm (Suc j) = Inr target' \<longrightarrow>
                        pairFault faults source' target' (database source') = None) \<and>
                     consoleErrors faults clk strm database =
                       errorLog ?G @ [PromotionError f (Suc f) e, UnhandledApplicationError e]"
          using p ms mt pf fr' lg' by blast
        then have "\<exists>f t source target.
                     (f, t) \<in> set (promotionPairs strm) \<and>
                     getStudentModel strm f = Inr source \<and> getStudentModel strm t = Inr target \<and>
                     pairFault faults source target (database source) = Some e \<and>
                     (\<forall>j source' target'.
                        (j, Suc j) \<in> set (promotionPairs strm) \<and> f < j \<and>
                        getStudentModel strm j = Inr source' \<and>
                        getStudentModel strm (Suc j) = Inr target' \<longrightarrow>
                        pairFault faults source' target' (database source') = None) \<and>
                     consoleErrors faults clk strm database =
                       errorLog ?G @ [PromotionError f t e, UnhandledApplicationError e]"
          by (intro exI[of _ f] exI[of _ "Suc f"] exI[of _ "nm f"] exI[of _ "nm (Suc f)"])
        then show ?thesis by blast
      qed
    qed
    have "\<exists>e. promotionResponse faults clk strm database = errorAnswer clk e \<and>
                 ((faults StartSession = Some e \<and>
                   consoleErrors faults clk strm database = [UnhandledApplicationError e]) \<or>
                  (faults CommitTransaction = Some e \<and>
                   consoleErrors faults clk strm database =
                     errorLog ?G @ [UnhandledApplicationError e]) \<or>
                  (\<exists>f t source target.
                     (f, t) \<in> set (promotionPairs strm) \<and>
                     getStudentModel strm f = Inr source \<and> getStudentModel strm t = Inr target \<and>
                     pairFault faults source target (database source) = Some e \<and>
                     (\<forall>j source' target'.
                        (j, Suc j) \<in> set (promotionPairs strm) \<and> f < j \<and>
                        getStudentModel strm j = Inr source' \<and>
                        getStudentModel strm (Suc j) = Inr target' \<longrightarrow>
                        pairFault faults source' target' (database source') = None) \<and>
                     consoleErrors faults clk strm database =
                       errorLog ?G @ [PromotionError f t e, UnhandledApplicationError e]))"
      using r cases by (intro exI[of _ e] conjI)
    with d show "databaseAfter faults clk strm database = database \<and>
            (\<forall>k. bucket (databaseAfter faults clk strm database) strm k = bucket database strm k) \<and>
            (\<exists>e. promotionResponse faults clk strm database = errorAnswer clk e \<and>
                 ((faults StartSession = Some e \<and>
                   consoleErrors faults clk strm database = [UnhandledApplicationError e]) \<or>
                  (faults CommitTransaction = Some e \<and>
                   consoleErrors faults clk strm database =
                     errorLog ?G @ [UnhandledApplicationError e]) \<or>
                  (\<exists>f t source target.
                     (f, t) \<in> set (promotionPairs strm) \<and>
                     getStudentModel strm f = Inr source \<and> getStudentModel strm t = Inr target \<and>
                     pairFault faults source target (database source) = Some e \<and>
                     (\<forall>j source' target'.
                        (j, Suc j) \<in> set (promotionPairs strm) \<and> f < j \<and>
                        getStudentModel strm j = Inr source' \<and>
                        getStudentModel strm (Suc j) = Inr target' \<longrightarrow>
                        pairFault faults source' target' (database source') = None) \<and>
                     consoleErrors faults clk strm database =
                       errorLog ?G @ [PromotionError f t e, UnhandledApplicationError e])))"
      by simp
  qed
  have glog: "\<forall>c6. getStudentModel strm 6 = Inr c6 \<longrightarrow>
             errorLog ?G =
               (case graduationFault faults c6 (database c6) of
                  None \<Rightarrow> [] | Some e \<Rightarrow> [GraduationError e])"
  proof (intro allI impI)
    fix c6 assume m6: "getStudentModel strm 6 = Inr c6"
    from graduationStep_effect(4)[OF m6, of faults clk "initialState database"]
    show "errorLog ?G =
               (case graduationFault faults c6 (database c6) of
                  None \<Rightarrow> [] | Some e \<Rightarrow> [GraduationError e])"
      by (simp split: option.splits)
  qed
  have second: "\<forall>f t source target.
             (f, t) \<in> set (promotionPairs strm) \<and>
             getStudentModel strm f = Inr source \<and> getStudentModel strm t = Inr target \<and>
             filter getActiveStudentQuery (database source) \<noteq> [] \<and>
             (faults (InsertMany target) \<noteq> None \<or> faults (DeleteMany source) \<noteq> None) \<longrightarrow>
             \<not> isSuccess (promotionResponse faults clk strm database)"
  proof (intro allI impI notI)
    fix f t source target
    assume a: "(f, t) \<in> set (promotionPairs strm) \<and>
             getStudentModel strm f = Inr source \<and> getStudentModel strm t = Inr target \<and>
             filter getActiveStudentQuery (database source) \<noteq> [] \<and>
             (faults (InsertMany target) \<noteq> None \<or> faults (DeleteMany source) \<noteq> None)"
      and ok: "isSuccess (promotionResponse faults clk strm database)"
    from a have pair: "(f, t) \<in> set (promotionPairs strm)" by simp
    from promotionPairs_member[OF pair]
    have f: "1 \<le> f" "f \<le> 5" and t: "t = Suc f" and sb: "strm = ''BCom Section B'' \<longrightarrow> f = 5"
      by simp_all
    have "getStudentModel strm f = Inr (nm f)" using f by (intro namesOf_model[OF nm]) simp_all
    with a have s: "source = nm f" by simp
    have "getStudentModel strm (Suc f) = Inr (nm (Suc f))" using f by (intro namesOf_model[OF nm]) simp_all
    with a t have tg: "target = nm (Suc f)" by simp
    from a s have act: "filter getActiveStudentQuery (database (nm f)) \<noteq> []" by simp
    have "faults (InsertMany (nm (Suc f))) = None \<and> faults (DeleteMany (nm f)) = None"
    proof (cases "strm = ''BCom Section B''")
      case True
      with sb have f5: "f = 5" by simp
      from sectionB_outcome(7)[OF ok[unfolded True] nm[unfolded True]] act f5
      show ?thesis by simp
    next
      case False
      from full_range_outcome(8)[OF valid False ok nm f act] show ?thesis .
    qed
    with a s tg show False by simp
  qed
  from first glog second show ?thesis by (intro conjI)
qed

theorem promotion_failure_rolls_back_witness:
  "(3, 4) \<in> set (promotionPairs ''BCA'')
   \<and> filter getActiveStudentQuery (dbTwoSources ''bca_sem3_students'') \<noteq> []
   \<and> faultsAtInsert4 (InsertMany ''bca_sem4_students'') \<noteq> None
   \<and> \<not> isSuccess (promotionResponse faultsAtInsert4 exampleClock ''BCA'' dbTwoSources)
   \<and> databaseAfter faultsAtInsert4 exampleClock ''BCA'' dbTwoSources = dbTwoSources
   \<and> bucket (databaseAfter faultsAtInsert4 exampleClock ''BCA'' dbTwoSources) ''BCA'' 3 =
       [exampleStudent ''BCA003'' ''BCA'' 3 (Value True)]
   \<and> pairFault faultsAtInsert4 ''bca_sem3_students'' ''bca_sem4_students''
       (dbTwoSources ''bca_sem3_students'') = Some (StoreError ''connection closed'')
   \<and> promotionResponse faultsAtInsert4 exampleClock ''BCA'' dbTwoSources =
       errorAnswer exampleClock (StoreError ''connection closed'')
   \<and> errorAnswer exampleClock (StoreError ''connection closed'') =
       ErrorResponse 500 ''connection closed'' 103
   \<and> consoleErrors faultsAtInsert4 exampleClock ''BCA'' dbTwoSources =
       [PromotionError 3 4 (StoreError ''connection closed''),
        UnhandledApplicationError (StoreError ''connection closed'')]"
proof -
  have v: "''BCA'' \<in> set validStreams" by code_simp
  have p: "(3, 4) \<in> set (promotionPairs ''BCA'')" by code_simp
  have m3: "getStudentModel ''BCA'' 3 = Inr ''bca_sem3_students''" by code_simp
  have m4: "getStudentModel ''BCA'' 4 = Inr ''bca_sem4_students''" by code_simp
  have a: "filter getActiveStudentQuery (dbTwoSources ''bca_sem3_students'') \<noteq> []" by code_simp
  have i: "faultsAtInsert4 (InsertMany ''bca_sem4_students'') \<noteq> None" by code_simp
  note t = promotion_failure_rolls_back[OF v, of faultsAtInsert4 exampleClock dbTwoSources]
  from t p m3 m4 a i
  have nok: "\<not> isSuccess (promotionResponse faultsAtInsert4 exampleClock ''BCA'' dbTwoSources)"
    by blast
  with t have d: "databaseAfter faultsAtInsert4 exampleClock ''BCA'' dbTwoSources = dbTwoSources"
    by blast
  from t nok have "bucket (databaseAfter faultsAtInsert4 exampleClock ''BCA'' dbTwoSources) ''BCA'' 3 =
       bucket dbTwoSources ''BCA'' 3" by blast
  moreover have "bucket dbTwoSources ''BCA'' 3 = [exampleStudent ''BCA003'' ''BCA'' 3 (Value True)]"
    by code_simp
  ultimately have b: "bucket (databaseAfter faultsAtInsert4 exampleClock ''BCA'' dbTwoSources) ''BCA'' 3 =
       [exampleStudent ''BCA003'' ''BCA'' 3 (Value True)]" by simp
  have pf: "pairFault faultsAtInsert4 ''bca_sem3_students'' ''bca_sem4_students''
       (dbTwoSources ''bca_sem3_students'') = Some (StoreError ''connection closed'')"
    by code_simp
  have r: "promotionResponse faultsAtInsert4 exampleClock ''BCA'' dbTwoSources =
       errorAnswer exampleClock (StoreError ''connection closed'')" by code_simp
  have ea: "errorAnswer exampleClock (StoreError ''connection closed'') =
       ErrorResponse 500 ''connection closed'' 103" by code_simp
  have ce: "consoleErrors faultsAtInsert4 exampleClock ''BCA'' dbTwoSources =
       [PromotionError 3 4 (StoreError ''connection closed''),
        UnhandledApplicationError (StoreError ''connection closed'')]" by code_simp
  from p a i nok d b pf r ea ce show ?thesis by simp
qed

end
